theory Spec2Isabelle
  imports Complex_Main "HOL-Library.Sublist" "HOL-Library.Log_Nat"
begin

section \<open>Data model\<close>

text \<open>
  The marketplace keeps four collections that matter to the cart lock: properties, carts
  (one per buyer, holding the reservation items), commissions and notifications, plus the
  rules collection that supplies configuration values.

  Conventions of the embedding.
  \<^item> An ObjectId is a natural number.
  \<^item> A JavaScript \<^verbatim>\<open>Date\<close> is its \<^verbatim>\<open>getTime()\<close> value, an integer number of
    milliseconds. Every handler receives the time of the request as a parameter \<open>now\<close>;
    the several \<^verbatim>\<open>new Date()\<close> and \<^verbatim>\<open>Date.now()\<close> calls of one handler
    all read that same instant.
  \<^item> \<^verbatim>\<open>d.setDate(d.getDate() + n)\<close> adds \<open>n\<close> calendar days; it is taken as
    \<open>n\<close> days of 24 hours (no daylight-saving shift).
  \<^item> A JavaScript Number that carries money or a percentage is a finite IEEE 754
    double, kept as the rational number it denotes. The operators \<^verbatim>\<open>+\<close>, \<^verbatim>\<open>*\<close> and
    \<^verbatim>\<open>/\<close> round the exact result to the nearest double, ties to even. Results beyond
    the largest finite double, where JavaScript yields \<^verbatim>\<open>Infinity\<close>, are outside the
    embedding: the rounding keeps 53 bits at any magnitude.
  \<^item> A field that may be \<^verbatim>\<open>undefined\<close> or \<^verbatim>\<open>null\<close> is an \<open>option\<close>.
\<close>

type_synonym oid = nat
type_synonym date = int

definition day_ms :: int where
  "day_ms = 24 * 60 * 60 * 1000"

subsection \<open>Numbers\<close>

type_synonym number = rat

text \<open>\<open>pow2 k\<close> is the power of two with the integer exponent \<open>k\<close>.\<close>

definition pow2 :: "int \<Rightarrow> rat" where
  "pow2 k = (if 0 \<le> k then 2 ^ nat k else 1 / 2 ^ nat (- k))"

text \<open>Rounding to the nearest integer, a tie going to the even neighbour.\<close>

definition round_half_even :: "rat \<Rightarrow> int" where
  "round_half_even y =
     (let f = \<lfloor>y\<rfloor>; d = y - of_int f
      in if d < 1 / 2 then f else if 1 / 2 < d then f + 1 else if even f then f else f + 1)"

text \<open>The exponent \<open>e\<close> with \<open>2 ^ e \<le> \<bar>x\<bar> < 2 ^ (e + 1)\<close>, for \<open>x\<close> other than zero. The
  lengths of numerator and denominator in bits leave two candidates.\<close>

definition binary_exponent :: "rat \<Rightarrow> int" where
  "binary_exponent x =
     (let (n, d) = quotient_of \<bar>x\<bar>; k = bitlen n - bitlen d
      in if pow2 k \<le> \<bar>x\<bar> then k else k - 1)"

text \<open>The double nearest to a rational: a significand of 53 bits, and below the
  smallest normal exponent the fixed spacing \<open>2 ^ - 1074\<close> of the subnormal numbers.\<close>

definition js_round :: "rat \<Rightarrow> number" where
  "js_round x =
     (if x = 0 then 0
      else let q = pow2 (max (binary_exponent x - 52) (- 1074))
           in of_int (round_half_even (x / q)) * q)"

text \<open>The operators \<^verbatim>\<open>+\<close>, \<^verbatim>\<open>*\<close> and \<^verbatim>\<open>/\<close> on Numbers. Every division in the
  modelled code is by the literal 100.\<close>

definition js_add :: "number \<Rightarrow> number \<Rightarrow> number" where
  "js_add x y = js_round (x + y)"

definition js_mul :: "number \<Rightarrow> number \<Rightarrow> number" where
  "js_mul x y = js_round (x * y)"

definition js_div :: "number \<Rightarrow> number \<Rightarrow> number" where
  "js_div x y = js_round (x / y)"

subsection \<open>Commission (models/Commission.js)\<close>

record commission_result =
  rate :: number
  amount :: number

text \<open>
  \<^verbatim>\<open>calculateCommission(propertyPrice, commissionType, adderRate = 1.5, sellerRate = 2.5)\<close>:
  the switch on the type string, with \<^verbatim>\<open>throw new Error('Invalid commission type')\<close>
  in the default branch as \<open>None\<close>. The default parameter values apply when the caller
  passes \<^verbatim>\<open>undefined\<close>, which is \<open>None\<close> here.
\<close>

definition calculateCommission ::
  "number \<Rightarrow> string \<Rightarrow> number option \<Rightarrow> number option \<Rightarrow> commission_result option" where
  "calculateCommission propertyPrice commissionType adderRateArg sellerRateArg =
     (let adderRate = (case adderRateArg of None \<Rightarrow> 3 / 2 | Some a \<Rightarrow> a);
          sellerRate = (case sellerRateArg of None \<Rightarrow> 5 / 2 | Some s \<Rightarrow> s);
          r = (if commissionType = ''adder'' then Some adderRate
               else if commissionType = ''seller'' then Some sellerRate
               else if commissionType = ''adder_seller'' then Some (js_add adderRate sellerRate)
               else None)
      in case r of
           None \<Rightarrow> None
         | Some rt \<Rightarrow> Some \<lparr> rate = rt, amount = js_div (js_mul propertyPrice rt) 100 \<rparr>)"

subsection \<open>Rules (models/Rule.js)\<close>

text \<open>
  A rule document. The schema leaves \<^verbatim>\<open>value\<close> of mixed type; every caller here
  reads it as a number of days, of properties or of percent, and it is a whole number in
  this embedding.
\<close>

record rule =
  rule_type :: string
  rule_value :: int
  is_active :: bool

text \<open>\<^verbatim>\<open>Rule.getRule(ruleType, conditions)\<close>: the first active rule of that type; the
  conditions are ignored by the source.\<close>

definition getRule :: "rule list \<Rightarrow> string \<Rightarrow> rule option" where
  "getRule rs ruleType = find (\<lambda>r. rule_type r = ruleType \<and> is_active r) rs"

text \<open>\<^verbatim>\<open>r?.value || d\<close>: the default when no rule was found or its value is falsy
  (zero).\<close>

definition value_or :: "rule option \<Rightarrow> int \<Rightarrow> int" where
  "value_or r d = (case r of None \<Rightarrow> d | Some x \<Rightarrow> (if rule_value x = 0 then d else rule_value x))"

subsection \<open>Cart (models/Cart.js)\<close>

datatype item_status = Active | Expired | Purchased | Removed | Completed

datatype visit_state =
  Pending | Scheduled | Confirmed | VisitCompleted | VisitExpired | Cancelled

text \<open>
  A reservation: one element of \<^verbatim>\<open>cart.items\<close>. The fields that only the scheduling of
  a visit writes (\<^verbatim>\<open>scheduled_date\<close>, \<^verbatim>\<open>scheduled_time\<close>, \<^verbatim>\<open>visit_type\<close>,
  \<^verbatim>\<open>phone_number\<close>, \<^verbatim>\<open>special_requests\<close>) are left out.
\<close>

record cart_item =
  property :: oid
  added_at :: date
  status :: item_status
  visit_status :: visit_state
  visit_confirmed_at :: "date option"
  confirmed_by :: "oid option"
  confirmation_method :: "string option"
  booking_window_start :: "date option"
  booking_window_end :: "date option"
  item_notes :: "string option"

record cart_settings =
  max_properties :: nat
  visit_window_days :: int
  booking_window_days :: int

record cart =
  buyer :: oid
  items :: "cart_item list"
  settings :: cart_settings
  last_updated :: date

text \<open>What \<^verbatim>\<open>items.push({property, added_at})\<close> stores: the schema defaults fill in
  \<^verbatim>\<open>status: 'active'\<close> and \<^verbatim>\<open>visit_status: 'pending'\<close>.\<close>

definition new_item :: "oid \<Rightarrow> date \<Rightarrow> cart_item" where
  "new_item propertyId now =
     \<lparr> property = propertyId, added_at = now, status = Active, visit_status = Pending,
       visit_confirmed_at = None, confirmed_by = None, confirmation_method = None,
       booking_window_start = None, booking_window_end = None, item_notes = None \<rparr>"

text \<open>The test \<^verbatim>\<open>item.property.toString() === propertyId && item.status === 'active'\<close>
  that every lookup of a reservation uses.\<close>

definition active_for :: "oid \<Rightarrow> cart_item \<Rightarrow> bool" where
  "active_for propertyId item \<longleftrightarrow> property item = propertyId \<and> status item = Active"

text \<open>\<^verbatim>\<open>items.find(p)\<close> returns a reference to the first element that satisfies \<open>p\<close>;
  the assignments to its fields that follow are an update of that element in place.\<close>

fun update_first :: "('a \<Rightarrow> bool) \<Rightarrow> ('a \<Rightarrow> 'a) \<Rightarrow> 'a list \<Rightarrow> 'a list" where
  "update_first p f [] = []"
| "update_first p f (x # xs) = (if p x then f x # xs else x # update_first p f xs)"

text \<open>\<^verbatim>\<open>items.splice(items.findIndex(p), 1)\<close>: the first element that satisfies \<open>p\<close>
  is deleted.\<close>

fun remove_first :: "('a \<Rightarrow> bool) \<Rightarrow> 'a list \<Rightarrow> 'a list" where
  "remove_first p [] = []"
| "remove_first p (x # xs) = (if p x then xs else x # remove_first p xs)"

text \<open>The virtual \<^verbatim>\<open>activeItems\<close>, also written out as
  \<^verbatim>\<open>items.filter(item => item.status === 'active')\<close> by the callers.\<close>

definition activeItems :: "cart \<Rightarrow> nat" where
  "activeItems c = length (filter (\<lambda>item. status item = Active) (items c))"

definition isPropertyInCart :: "cart \<Rightarrow> oid \<Rightarrow> bool" where
  "isPropertyInCart c propertyId \<longleftrightarrow> list_ex (active_for propertyId) (items c)"

text \<open>The \<^verbatim>\<open>pre('save')\<close> hook: \<^verbatim>\<open>last_updated = new Date()\<close> (and
  \<^verbatim>\<open>total_value = 0\<close>, a constant that is not modelled).\<close>

definition pre_save :: "date \<Rightarrow> cart \<Rightarrow> cart" where
  "pre_save now c = c\<lparr> last_updated := now \<rparr>"

text \<open>
  The methods of the cart schema mutate \<^verbatim>\<open>this\<close>, save it and return, or throw an
  \<^verbatim>\<open>Error\<close>. Each is a function from the cart to the message thrown (\<open>None\<close> when
  the call returns) and the cart as saved. The message of the capacity error,
  \<^verbatim>\<open>'Cart limit reached. Maximum N properties allowed.'\<close>, is given by its leading
  words.
\<close>

definition addItem :: "cart \<Rightarrow> date \<Rightarrow> oid \<Rightarrow> string option \<times> cart" where
  "addItem c now propertyId =
     (if isPropertyInCart c propertyId then (Some ''Property already in cart'', c)
      else if activeItems c \<ge> max_properties (settings c) then (Some ''Cart limit reached'', c)
      else (None, pre_save now (c\<lparr> items := items c @ [new_item propertyId now] \<rparr>)))"

definition removeItem :: "cart \<Rightarrow> date \<Rightarrow> oid \<Rightarrow> string option \<times> cart" where
  "removeItem c now propertyId =
     (if \<not> list_ex (active_for propertyId) (items c) then (Some ''Property not found in cart'', c)
      else (None, pre_save now
              (c\<lparr> items := update_first (active_for propertyId)
                                (\<lambda>item. item\<lparr> status := Removed \<rparr>) (items c) \<rparr>)))"

definition cart_confirmVisit ::
  "cart \<Rightarrow> date \<Rightarrow> oid \<Rightarrow> oid \<Rightarrow> string \<Rightarrow> string option \<times> cart" where
  "cart_confirmVisit c now propertyId confirmedBy method =
     (case find (active_for propertyId) (items c) of
        None \<Rightarrow> (Some ''Property not found in cart'', c)
      | Some item \<Rightarrow>
          if visit_status item = Confirmed then (Some ''Visit already confirmed'', c)
          else if now > added_at item + visit_window_days (settings c) * day_ms then
            (Some ''Visit window has expired'',
             pre_save now
               (c\<lparr> items := update_first (active_for propertyId)
                                 (\<lambda>item. item\<lparr> visit_status := VisitExpired, status := Expired \<rparr>)
                                 (items c) \<rparr>))
          else
            (None,
             pre_save now
               (c\<lparr> items := update_first (active_for propertyId)
                                 (\<lambda>item. item\<lparr> visit_status := Confirmed,
                                               visit_confirmed_at := Some now,
                                               confirmed_by := Some confirmedBy,
                                               confirmation_method := Some method,
                                               booking_window_start := Some now,
                                               booking_window_end :=
                                                 Some (now + booking_window_days (settings c) * day_ms) \<rparr>)
                                 (items c) \<rparr>)))"

text \<open>
  The body of the \<^verbatim>\<open>forEach\<close> of \<^verbatim>\<open>checkExpiredItems\<close> on one item: the item after
  the two \<^verbatim>\<open>if\<close> statements, and whether one of them set \<^verbatim>\<open>updated = true\<close>. The
  second test reads the status that the first may have changed.
\<close>

definition check_item :: "int \<Rightarrow> date \<Rightarrow> cart_item \<Rightarrow> cart_item \<times> bool" where
  "check_item visitWindowMs now item =
     (let (item1, updated1) =
            (if status item = Active \<and> visit_status item = Pending
                \<and> now - added_at item > visitWindowMs
             then (item\<lparr> visit_status := VisitExpired, status := Expired \<rparr>, True)
             else (item, False))
      in if status item1 = Active \<and> visit_status item1 = Confirmed
            \<and> (case booking_window_end item1 of None \<Rightarrow> False | Some e \<Rightarrow> now > e)
         then (item1\<lparr> status := Expired \<rparr>, True)
         else (item1, updated1))"

definition checkExpiredItems :: "cart \<Rightarrow> date \<Rightarrow> bool \<times> cart" where
  "checkExpiredItems c now =
     (let visitWindowMs = visit_window_days (settings c) * day_ms;
          updated = list_ex (\<lambda>item. snd (check_item visitWindowMs now item)) (items c);
          c' = c\<lparr> items := map (\<lambda>item. fst (check_item visitWindowMs now item)) (items c) \<rparr>
      in (updated, if updated then pre_save now c' else c'))"

text \<open>\<^verbatim>\<open>Cart.cleanExpiredItems()\<close>: every cart of the collection is checked; the result
  is the number of carts that were saved.\<close>

definition cleanExpiredItems :: "cart list \<Rightarrow> date \<Rightarrow> nat \<times> cart list" where
  "cleanExpiredItems cs now =
     (length (filter (\<lambda>c. fst (checkExpiredItems c now)) cs),
      map (\<lambda>c. snd (checkExpiredItems c now)) cs)"

subsection \<open>Property, notification and commission documents\<close>

datatype property_status =
  Draft | PendingApproval | Approved | Live | Rejected | Suspended | Sold | Rented | ListingExpired

text \<open>The sub-document \<^verbatim>\<open>property.cart_status\<close>, the lock that mirrors the
  reservation. Its fields carry the prefix \<open>cs_\<close> where the cart item has a field of the
  same name.\<close>

record cart_status =
  in_cart :: bool
  buyer_id :: "oid option"
  cs_added_at :: "date option"
  visit_confirmed :: bool
  cs_visit_confirmed_at :: "date option"
  cs_confirmed_by :: "(oid \<times> string \<times> string option) option"
  cs_booking_window_start :: "date option"
  cs_booking_window_end :: "date option"

text \<open>A property document, reduced to the fields that the cart handlers read or
  write.\<close>

record property_doc =
  p_status :: property_status
  p_price :: number
  p_seller :: oid
  p_broker :: "oid option"
  added_by_user :: oid
  added_by_role :: string
  p_cart_status :: cart_status
  commission_adder_rate :: number
  commission_seller_rate :: number

record notification =
  n_user :: oid
  n_type :: string
  n_property :: oid

record commission =
  c_broker :: oid
  c_property :: oid
  c_property_price :: number
  c_commission_type :: string
  c_rate :: number
  c_amount :: number
  c_status :: string

text \<open>The persisted state: the five collections. Properties are looked up by
  \<^verbatim>\<open>_id\<close> only; carts, commissions and notifications are kept in insertion
  order.\<close>

record db =
  properties :: "oid \<Rightarrow> property_doc option"
  carts :: "cart list"
  commissions :: "commission list"
  notifications :: "notification list"
  rules :: "rule list"

text \<open>
  What a request handler answers: \<open>Success\<close> for \<^verbatim>\<open>res.json({success: true, ...})\<close>,
  \<open>Rejected code message\<close> for \<^verbatim>\<open>res.status(code).json({success: false, message})\<close>
  sent by the handler's own checks, and \<open>ServerError\<close> for the \<^verbatim>\<open>catch\<close> block, which
  answers status 500 after an exception. A message built from a template is given by
  its leading words (\<^verbatim>\<open>'Cart limit reached'\<close>, \<^verbatim>\<open>'You can only add '\<close>), without
  the number that follows. The state returned with the answer is the state the handler leaves
  behind; an exception does not undo the writes made before it.
\<close>

datatype outcome = Success | Rejected nat string | ServerError

text \<open>The \<^verbatim>\<open>enum\<close> of \<^verbatim>\<open>type\<close> in the notification schema.
  \<^verbatim>\<open>Notification.createNotification\<close> validates against it: a type outside the list
  makes \<^verbatim>\<open>create\<close> throw a validation error and nothing is stored.\<close>

definition notification_types :: "string list" where
  "notification_types =
     [''property_approved'', ''property_rejected'', ''property_added_to_cart'',
      ''visit_reminder'', ''booking_window_expiring'', ''cart_item_expired'',
      ''commission_earned'', ''edit_permission_granted'', ''property_lock'',
      ''property_unlock'', ''system_alert'', ''payment_received'']"

definition createNotification :: "db \<Rightarrow> oid \<Rightarrow> string \<Rightarrow> oid \<Rightarrow> db option" where
  "createNotification s userId ty propertyId =
     (if ty \<in> set notification_types
      then Some (s\<lparr> notifications :=
                     notifications s @ [\<lparr> n_user = userId, n_type = ty, n_property = propertyId \<rparr>] \<rparr>)
      else None)"

text \<open>\<^verbatim>\<open>Commission.create\<close> with the validators of the commission schema on the
  fields the handlers pass: price, rate and amount must not be negative and the rate
  is at most 100.\<close>

definition createCommission :: "db \<Rightarrow> commission \<Rightarrow> db option" where
  "createCommission s c =
     (if 0 \<le> c_property_price c \<and> 0 \<le> c_rate c \<and> c_rate c \<le> 100 \<and> 0 \<le> c_amount c
      then Some (s\<lparr> commissions := commissions s @ [c] \<rparr>)
      else None)"

text \<open>\<^verbatim>\<open>Cart.findOne({ buyer })\<close>, and \<^verbatim>\<open>cart.save()\<close>: the document of that buyer is
  replaced, or inserted when the cart is new; the \<^verbatim>\<open>pre('save')\<close> hook runs first.\<close>

definition findCart :: "db \<Rightarrow> oid \<Rightarrow> cart option" where
  "findCart s buyerId = find (\<lambda>c. buyer c = buyerId) (carts s)"

definition saveCart :: "db \<Rightarrow> date \<Rightarrow> cart \<Rightarrow> db" where
  "saveCart s now c =
     (if list_ex (\<lambda>c'. buyer c' = buyer c) (carts s)
      then s\<lparr> carts := map (\<lambda>c'. if buyer c' = buyer c then pre_save now c else c') (carts s) \<rparr>
      else s\<lparr> carts := carts s @ [pre_save now c] \<rparr>)"

text \<open>A write to the lock of a stored property: \<^verbatim>\<open>property.save()\<close> after the
  handler changed \<^verbatim>\<open>cart_status\<close>, or \<^verbatim>\<open>Property.findByIdAndUpdate\<close> with
  \<^verbatim>\<open>cart_status\<close> paths. Only that sub-document of the stored property changes, and a
  missing property is left missing.\<close>

definition updateLock :: "db \<Rightarrow> oid \<Rightarrow> (cart_status \<Rightarrow> cart_status) \<Rightarrow> db" where
  "updateLock s propertyId f =
     s\<lparr> properties := (properties s)
           (propertyId := map_option (\<lambda>p. p\<lparr> p_cart_status := f (p_cart_status p) \<rparr>)
                            (properties s propertyId)) \<rparr>"

text \<open>The object that the add-to-cart handlers assign to \<^verbatim>\<open>property.cart_status\<close>;
  the assignment replaces the sub-document, so the fields that are not named fall back
  to empty.\<close>

definition locked_by :: "oid \<Rightarrow> date \<Rightarrow> cart_status" where
  "locked_by userId now =
     \<lparr> in_cart = True, buyer_id = Some userId, cs_added_at = Some now, visit_confirmed = False,
       cs_visit_confirmed_at = None, cs_confirmed_by = None,
       cs_booking_window_start = None, cs_booking_window_end = None \<rparr>"

text \<open>The object that the remove route and the seller's unlock assign:
  \<^verbatim>\<open>{in_cart: false, buyer_id: null, added_at: null, visit_confirmed: false}\<close>.\<close>

definition unlocked :: cart_status where
  "unlocked =
     \<lparr> in_cart = False, buyer_id = None, cs_added_at = None, visit_confirmed = False,
       cs_visit_confirmed_at = None, cs_confirmed_by = None,
       cs_booking_window_start = None, cs_booking_window_end = None \<rparr>"

text \<open>The notifications a handler sends, one \<^verbatim>\<open>await\<close> after the other: the first
  one that fails validation throws, the ones before it stay stored. The flag tells
  whether all were stored.\<close>

fun notify_all :: "db \<Rightarrow> (oid \<times> string \<times> oid) list \<Rightarrow> bool \<times> db" where
  "notify_all s [] = (True, s)"
| "notify_all s ((userId, ty, propertyId) # ns) =
     (case createNotification s userId ty propertyId of
        None \<Rightarrow> (False, s)
      | Some s' \<Rightarrow> notify_all s' ns)"

text \<open>The end of a handler whose last statements are the notifications: the success
  answer, or the \<^verbatim>\<open>catch\<close> block when one of them threw.\<close>

definition answer_after :: "bool \<times> db \<Rightarrow> outcome \<times> db" where
  "answer_after r = (if fst r then (Success, snd r) else (ServerError, snd r))"

subsection \<open>The buyer's handlers (controllers/buyerController.js)\<close>

text \<open>\<^verbatim>\<open>Property.findOne({_id, status: 'live', 'cart_status.in_cart': false})\<close>.\<close>

definition findAvailable :: "db \<Rightarrow> oid \<Rightarrow> property_doc option" where
  "findAvailable s propertyId =
     (case properties s propertyId of
        None \<Rightarrow> None
      | Some p \<Rightarrow> if p_status p = Live \<and> \<not> in_cart (p_cart_status p) then Some p else None)"

text \<open>
  The cart of the buyer as \<^verbatim>\<open>addToCart\<close> obtains it: the stored one, or a new one
  created from the rules with the defaults 5, 7 and 60. \<^verbatim>\<open>Cart.create\<close> validates
  the settings against the bounds of the schema and throws when one is violated
  (\<open>None\<close>).
\<close>

definition cart_of_buyer :: "db \<Rightarrow> date \<Rightarrow> oid \<Rightarrow> (cart \<times> db) option" where
  "cart_of_buyer s now userId =
     (case findCart s userId of
        Some c \<Rightarrow> Some (c, s)
      | None \<Rightarrow>
          let m = value_or (getRule (rules s) ''cart_max_properties'') 5;
              v = value_or (getRule (rules s) ''visit_window_days'') 7;
              b = value_or (getRule (rules s) ''booking_window_days'') 60
          in if 1 \<le> m \<and> m \<le> 10 \<and> 1 \<le> v \<and> v \<le> 30 \<and> 1 \<le> b \<and> b \<le> 180
             then let c = \<lparr> buyer = userId, items = [],
                             settings = \<lparr> max_properties = nat m, visit_window_days = v,
                                          booking_window_days = b \<rparr>,
                             last_updated = now \<rparr>
                  in Some (c, s\<lparr> carts := carts s @ [c] \<rparr>)
             else None)"

text \<open>
  \<^verbatim>\<open>exports.addToCart\<close>. After the property and the cart are obtained the handler
  calls \<^verbatim>\<open>cart.canAddProperty()\<close>. The cart schema defines no method of that name (its
  methods are \<^verbatim>\<open>isPropertyInCart\<close>, \<^verbatim>\<open>addItem\<close>, \<^verbatim>\<open>removeItem\<close>,
  \<^verbatim>\<open>scheduleVisit\<close>, \<^verbatim>\<open>confirmVisit\<close> and \<^verbatim>\<open>checkExpiredItems\<close>), so the call
  throws a \<^verbatim>\<open>TypeError\<close> and the \<^verbatim>\<open>catch\<close> block answers status 500. The statements
  after it, which push the item with \<^verbatim>\<open>booking_window_end\<close>, save the cart, write the
  lock and notify, are never reached. What the handler has written by then is the new
  cart of a buyer who had none.
\<close>

definition addToCart :: "db \<Rightarrow> date \<Rightarrow> oid \<Rightarrow> oid \<Rightarrow> outcome \<times> db" where
  "addToCart s now userId propertyId =
     (case findAvailable s propertyId of
        None \<Rightarrow> (Rejected 404 ''Property not available for cart'', s)
      | Some p \<Rightarrow>
          (case cart_of_buyer s now userId of
             None \<Rightarrow> (ServerError, s)
           | Some (c, s1) \<Rightarrow> (ServerError, s1)))"

definition removeFromCart :: "db \<Rightarrow> date \<Rightarrow> oid \<Rightarrow> oid \<Rightarrow> outcome \<times> db" where
  "removeFromCart s now userId propertyId =
     (case findCart s userId of
        None \<Rightarrow> (Rejected 404 ''Cart not found'', s)
      | Some c \<Rightarrow>
          if \<not> list_ex (active_for propertyId) (items c)
          then (Rejected 404 ''Item not found in cart'', s)
          else
            let s1 = saveCart s now (c\<lparr> items := remove_first (active_for propertyId) (items c) \<rparr>);
                s2 = updateLock s1 propertyId (\<lambda>l. l\<lparr> in_cart := False, buyer_id := None \<rparr>)
            in (case properties s2 propertyId of
                  None \<Rightarrow> (Success, s2)
                | Some p \<Rightarrow>
                    answer_after (notify_all s2 [(p_seller p, ''property_unlock'', propertyId)])))"

text \<open>\<^verbatim>\<open>exports.confirmVisit\<close> of the buyer controller. The update of the property
  copies \<^verbatim>\<open>cartItem.booking_window_end\<close>, which this handler does not assign.\<close>

definition buyer_confirmVisit :: "db \<Rightarrow> date \<Rightarrow> oid \<Rightarrow> oid \<Rightarrow> outcome \<times> db" where
  "buyer_confirmVisit s now userId propertyId =
     (case findCart s userId of
        None \<Rightarrow> (Rejected 404 ''Cart not found'', s)
      | Some c \<Rightarrow>
          (case find (active_for propertyId) (items c) of
             None \<Rightarrow> (Rejected 404 ''Property not found in cart'', s)
           | Some cartItem \<Rightarrow>
               if now > added_at cartItem + visit_window_days (settings c) * day_ms
               then (Rejected 400 ''Visit window has expired'', s)
               else
                 let s1 = saveCart s now
                            (c\<lparr> items := update_first (active_for propertyId)
                                   (\<lambda>item. item\<lparr> visit_status := Confirmed,
                                                 visit_confirmed_at := Some now,
                                                 confirmed_by := Some userId,
                                                 booking_window_start := Some now \<rparr>)
                                   (items c) \<rparr>);
                     s2 = updateLock s1 propertyId
                            (\<lambda>l. l\<lparr> visit_confirmed := True,
                                     cs_visit_confirmed_at := Some now,
                                     cs_booking_window_start := Some now,
                                     cs_booking_window_end := booking_window_end cartItem \<rparr>)
                 in (case properties s2 propertyId of
                       None \<Rightarrow> (Success, s2)
                     | Some p \<Rightarrow>
                         answer_after
                           (notify_all s2
                              ([(userId, ''visit_confirmed'', propertyId),
                                (p_seller p, ''visit_confirmed'', propertyId)]
                               @ (case p_broker p of
                                    None \<Rightarrow> []
                                  | Some b \<Rightarrow> [(b, ''visit_confirmed'', propertyId)]))))))"

subsection \<open>The broker's handlers\<close>

text \<open>
  \<^verbatim>\<open>exports.confirmVisit\<close> of controllers/brokerController.js. \<^verbatim>\<open>property.broker.toString()\<close>
  throws when the property is missing or has no broker. The save of the property
  validates \<^verbatim>\<open>confirmed_by.method\<close> against \<^verbatim>\<open>['otp', 'qr', 'manual']\<close>; the cart is
  saved before that. The commission is created before the notifications are sent.
\<close>

definition broker_confirmVisit ::
  "db \<Rightarrow> date \<Rightarrow> oid \<Rightarrow> oid \<Rightarrow> oid \<Rightarrow> string option \<Rightarrow> outcome \<times> db" where
  "broker_confirmVisit s now userId propertyId buyerId confirmationMethod =
     (case findCart s buyerId of
        None \<Rightarrow> (Rejected 404 ''Cart not found'', s)
      | Some c \<Rightarrow>
          (case find (active_for propertyId) (items c) of
             None \<Rightarrow> (Rejected 404 ''Property not found in cart'', s)
           | Some cartItem \<Rightarrow>
               (case properties s propertyId of
                  None \<Rightarrow> (ServerError, s)
                | Some p \<Rightarrow>
                    (case p_broker p of
                       None \<Rightarrow> (ServerError, s)
                     | Some b \<Rightarrow>
                         if b \<noteq> userId
                         then (Rejected 403 ''Not authorized to confirm visit for this property'', s)
                         else
                           let s1 = saveCart s now
                                      (c\<lparr> items := update_first (active_for propertyId)
                                             (\<lambda>item. item\<lparr> visit_status := Confirmed,
                                                           visit_confirmed_at := Some now,
                                                           confirmed_by := Some userId,
                                                           booking_window_start := Some now \<rparr>)
                                             (items c) \<rparr>)
                           in if (case confirmationMethod of
                                    None \<Rightarrow> False
                                  | Some m \<Rightarrow> m \<notin> set [''otp'', ''qr'', ''manual''])
                              then (ServerError, s1)
                              else
                                let s2 = updateLock s1 propertyId
                                           (\<lambda>l. l\<lparr> visit_confirmed := True,
                                                    cs_visit_confirmed_at := Some now,
                                                    cs_booking_window_start := Some now,
                                                    cs_confirmed_by :=
                                                      Some (userId, ''broker'', confirmationMethod) \<rparr>);
                                    r = of_int (value_or (getRule (rules s2) ''commission_seller'') 2)
                                in (case (if added_by_user p \<noteq> userId
                                          then createCommission s2
                                                 \<lparr> c_broker = userId, c_property = propertyId,
                                                   c_property_price = p_price p,
                                                   c_commission_type = ''seller'',
                                                   c_rate = r,
                                                   c_amount = js_div (js_mul (p_price p) r) 100,
                                                   c_status = ''pending'' \<rparr>
                                          else Some s2) of
                                      None \<Rightarrow> (ServerError, s2)
                                    | Some s3 \<Rightarrow>
                                        answer_after
                                          (notify_all s3
                                             [(buyerId, ''visit_confirmed'', propertyId),
                                              (p_seller p, ''visit_confirmed'', propertyId)]))))))"

text \<open>\<^verbatim>\<open>x || d\<close> on a rate: the default when the rate is zero.\<close>

definition rate_or :: "number \<Rightarrow> number \<Rightarrow> number" where
  "rate_or x d = (if x = 0 then d else x)"

text \<open>
  \<^verbatim>\<open>router.post('/api/visits/:propertyId/confirm')\<close> of the broker routes.
  \<^verbatim>\<open>Cart.findOne({'items.property': propertyId, 'items.status': 'active'})\<close> matches a
  cart that has an item of that property and an item that is active, not necessarily
  the same item. The visit window and the booking window are the literals 7 and 60.
  The save of the cart validates \<^verbatim>\<open>confirmation_method\<close> against
  \<^verbatim>\<open>['otp', 'qr', 'manual', 'scheduled']\<close>.
\<close>

definition route_visit_confirm ::
  "db \<Rightarrow> date \<Rightarrow> oid \<Rightarrow> oid \<Rightarrow> string \<Rightarrow> string option \<Rightarrow> outcome \<times> db" where
  "route_visit_confirm s now userId propertyId method reqNotes =
     (case (case properties s propertyId of
              None \<Rightarrow> None
            | Some p \<Rightarrow> if p_broker p = Some userId then Some p else None) of
        None \<Rightarrow> (Rejected 404 ''Property not found or you are not the assigned broker'', s)
      | Some p \<Rightarrow>
          (case find (\<lambda>c. list_ex (\<lambda>item. property item = propertyId) (items c)
                          \<and> list_ex (\<lambda>item. status item = Active) (items c)) (carts s) of
             None \<Rightarrow> (Rejected 400 ''Property not found in any active cart'', s)
           | Some c \<Rightarrow>
               (case find (active_for propertyId) (items c) of
                  None \<Rightarrow> (Rejected 400 ''Cart item not found'', s)
                | Some cartItem \<Rightarrow>
                    if now > added_at cartItem + 7 * day_ms
                    then (Rejected 400 ''Visit window has expired'', s)
                    else if method \<notin> set [''otp'', ''qr'', ''manual'', ''scheduled'']
                    then (ServerError, s)
                    else
                      let s1 = saveCart s now
                                 (c\<lparr> items := update_first (active_for propertyId)
                                        (\<lambda>item. item\<lparr> visit_status := Confirmed,
                                                      visit_confirmed_at := Some now,
                                                      confirmed_by := Some userId,
                                                      confirmation_method := Some method,
                                                      booking_window_start := Some now,
                                                      booking_window_end := Some (now + 60 * day_ms),
                                                      item_notes := reqNotes \<rparr>)
                                        (items c) \<rparr>);
                          s2 = updateLock s1 propertyId
                                 (\<lambda>l. l\<lparr> visit_confirmed := True,
                                          cs_visit_confirmed_at := Some now,
                                          cs_booking_window_start := Some now,
                                          cs_booking_window_end := Some (now + 60 * day_ms) \<rparr>)
                      in if added_by_user p \<noteq> userId \<or> added_by_role p \<noteq> ''broker''
                         then (case calculateCommission (p_price p) ''seller''
                                      (Some (rate_or (commission_adder_rate p) (3 / 2)))
                                      (Some (rate_or (commission_seller_rate p) (5 / 2))) of
                                 None \<Rightarrow> (ServerError, s2)
                               | Some commissionData \<Rightarrow>
                                   (case createCommission s2
                                           \<lparr> c_broker = userId, c_property = propertyId,
                                             c_property_price = p_price p,
                                             c_commission_type = ''seller'',
                                             c_rate = rate commissionData,
                                             c_amount = amount commissionData,
                                             c_status = ''pending'' \<rparr> of
                                      None \<Rightarrow> (ServerError, s2)
                                    | Some s3 \<Rightarrow> (Success, s3)))
                         else (Success, s2))))"

subsection \<open>The buyer's routes (routes/buyer.js)\<close>

definition in_another_cart_message :: string where
  "in_another_cart_message = ''Property is already in another buyer'' @ [CHR 0x27] @ ''s cart''"

text \<open>
  \<^verbatim>\<open>router.post('/api/cart/add')\<close> in its two parts. The first part reads: it loads
  the property with \<^verbatim>\<open>Property.findById\<close>, tests \<^verbatim>\<open>cart_status.in_cart\<close> and the
  status, loads the cart of the buyer (a buyer without one gets \<^verbatim>\<open>new Cart(...)\<close> with
  the literal settings 5, 7 and 60, not stored yet) and tests the limit and the
  duplicate; it answers a rejection or goes on with the two documents it has loaded. The
  second part writes: it assigns the lock on the loaded property and saves it, pushes the
  item on the loaded cart and saves it. The handler is the first part followed by the
  second. Each read and each save is an \<^verbatim>\<open>await\<close>, at which the requests of other users
  run.
\<close>

definition route_cart_add_check ::
  "db \<Rightarrow> date \<Rightarrow> oid \<Rightarrow> oid \<Rightarrow> outcome + property_doc \<times> cart" where
  "route_cart_add_check s now userId propertyId =
     (case properties s propertyId of
        None \<Rightarrow> Inl (Rejected 404 ''Property not found'')
      | Some p \<Rightarrow>
          if in_cart (p_cart_status p) then Inl (Rejected 400 in_another_cart_message)
          else if p_status p \<noteq> Live then Inl (Rejected 400 ''Property is not available for cart'')
          else
            let c = (case findCart s userId of
                       Some c \<Rightarrow> c
                     | None \<Rightarrow> \<lparr> buyer = userId, items = [],
                                 settings = \<lparr> max_properties = 5, visit_window_days = 7,
                                              booking_window_days = 60 \<rparr>,
                                 last_updated = now \<rparr>)
            in if activeItems c \<ge> max_properties (settings c)
               then Inl (Rejected 400 ''Cart limit reached'')
               else if list_ex (active_for propertyId) (items c)
               then Inl (Rejected 400 ''Property is already in your cart'')
               else Inr (p, c))"

definition route_cart_add_commit ::
  "db \<Rightarrow> date \<Rightarrow> oid \<Rightarrow> oid \<Rightarrow> property_doc \<times> cart \<Rightarrow> outcome \<times> db" where
  "route_cart_add_commit s now userId propertyId loaded =
     (let c = snd loaded;
          s1 = updateLock s propertyId (\<lambda>_. locked_by userId now);
          s2 = saveCart s1 now (c\<lparr> items := items c @ [new_item propertyId now] \<rparr>)
      in (Success, s2))"

definition route_cart_add :: "db \<Rightarrow> date \<Rightarrow> oid \<Rightarrow> oid \<Rightarrow> outcome \<times> db" where
  "route_cart_add s now userId propertyId =
     (case route_cart_add_check s now userId propertyId of
        Inl r \<Rightarrow> (r, s)
      | Inr loaded \<Rightarrow> route_cart_add_commit s now userId propertyId loaded)"

text \<open>
  Two requests to \<^verbatim>\<open>/api/cart/add\<close> for the same property that arrive together, in an
  order that the \<^verbatim>\<open>await\<close>s allow: both run their reads and tests on the state as it
  is, and only then does each write, on the documents it loaded. Each answer is paired
  with the state both leave behind.
\<close>

definition route_cart_add_interleaved ::
  "db \<Rightarrow> date \<Rightarrow> oid \<Rightarrow> oid \<Rightarrow> oid \<Rightarrow> (outcome \<times> outcome) \<times> db" where
  "route_cart_add_interleaved s now userA userB propertyId =
     (let ra = route_cart_add_check s now userA propertyId;
          rb = route_cart_add_check s now userB propertyId;
          (oa, s1) = (case ra of
                        Inl r \<Rightarrow> (r, s)
                      | Inr loaded \<Rightarrow> route_cart_add_commit s now userA propertyId loaded);
          (ob, s2) = (case rb of
                        Inl r \<Rightarrow> (r, s1)
                      | Inr loaded \<Rightarrow> route_cart_add_commit s1 now userB propertyId loaded)
      in ((oa, ob), s2))"

text \<open>\<^verbatim>\<open>router.post('/api/cart/remove')\<close>: the item is marked, not deleted, and the
  whole lock is reset.\<close>

definition route_cart_remove :: "db \<Rightarrow> date \<Rightarrow> oid \<Rightarrow> oid \<Rightarrow> outcome \<times> db" where
  "route_cart_remove s now userId propertyId =
     (case findCart s userId of
        None \<Rightarrow> (Rejected 400 ''Cart not found'', s)
      | Some c \<Rightarrow>
          if \<not> list_ex (active_for propertyId) (items c)
          then (Rejected 400 ''Property not found in cart'', s)
          else
            let s1 = saveCart s now
                       (c\<lparr> items := update_first (active_for propertyId)
                                         (\<lambda>item. item\<lparr> status := Removed \<rparr>) (items c) \<rparr>)
            in (Success, updateLock s1 propertyId (\<lambda>_. unlocked)))"

subsection \<open>The sweepers (services/simpleCleanupService.js, services/cartCleanupService.js)\<close>

text \<open>The filter and the update of \<^verbatim>\<open>Property.updateMany\<close> on one lock. A comparison
  \<^verbatim>\<open>$lt\<close> with a field that is not set does not match.\<close>

definition visit_window_over :: "date \<Rightarrow> cart_status \<Rightarrow> bool" where
  "visit_window_over sevenDaysAgo l \<longleftrightarrow>
     in_cart l \<and> \<not> visit_confirmed l
     \<and> (case cs_added_at l of None \<Rightarrow> False | Some a \<Rightarrow> a < sevenDaysAgo)"

definition booking_window_over :: "date \<Rightarrow> cart_status \<Rightarrow> bool" where
  "booking_window_over now l \<longleftrightarrow>
     in_cart l \<and> visit_confirmed l
     \<and> (case cs_booking_window_end l of None \<Rightarrow> False | Some e \<Rightarrow> e < now)"

definition unlock_where :: "(cart_status \<Rightarrow> bool) \<Rightarrow> db \<Rightarrow> db" where
  "unlock_where cond s =
     s\<lparr> properties := (\<lambda>propertyId.
           map_option
             (\<lambda>p. if cond (p_cart_status p)
                   then p\<lparr> p_cart_status := (p_cart_status p)\<lparr> in_cart := False, buyer_id := None \<rparr> \<rparr>
                   else p)
             (properties s propertyId)) \<rparr>"

text \<open>\<^verbatim>\<open>SimpleCleanupService.cleanupExpiredItems\<close>: two \<^verbatim>\<open>updateMany\<close> on the
  properties, and nothing else.\<close>

definition simple_cleanupExpiredItems :: "db \<Rightarrow> date \<Rightarrow> db" where
  "simple_cleanupExpiredItems s now =
     (let sevenDaysAgo = now - 7 * day_ms;
          s1 = unlock_where (visit_window_over sevenDaysAgo) s
      in unlock_where (booking_window_over now) s1)"

text \<open>\<^verbatim>\<open>CartCleanupService.cleanupExpiredItems\<close>: the carts are checked with
  \<^verbatim>\<open>Cart.cleanExpiredItems()\<close>, then the properties whose seven days are over are
  unlocked.\<close>

definition cart_cleanupExpiredItems :: "db \<Rightarrow> date \<Rightarrow> db" where
  "cart_cleanupExpiredItems s now =
     (let s1 = s\<lparr> carts := snd (cleanExpiredItems (carts s) now) \<rparr>;
          sevenDaysAgo = now - 7 * day_ms
      in unlock_where (visit_window_over sevenDaysAgo) s1)"

subsection \<open>Requests and terminal reservations\<close>

text \<open>The reservations of a cart that are not active, in the order of the cart.\<close>

definition terminal_items :: "cart \<Rightarrow> cart_item list" where
  "terminal_items c = filter (\<lambda>item. status item \<noteq> Active) (items c)"

text \<open>Between two states every cart keeps its reservations that are not active: they are
  still in the cart of the same buyer, unchanged and in the same order, possibly with new
  ones among them.\<close>

definition terminal_kept :: "db \<Rightarrow> db \<Rightarrow> bool" where
  "terminal_kept s s' \<longleftrightarrow>
     (\<forall>b c. findCart s b = Some c \<longrightarrow>
        (\<exists>c'. findCart s' b = Some c' \<and> subseq (terminal_items c) (terminal_items c')))"

text \<open>The requests that reach the reservation engine, one constructor for each handler and
  each sweeper, with the state that serving a request leaves behind and the state after
  a sequence of requests, each served at its own time.\<close>

datatype request =
    AddToCart oid oid
  | RemoveFromCart oid oid
  | BuyerConfirmVisit oid oid
  | BrokerConfirmVisit oid oid oid "string option"
  | RouteVisitConfirm oid oid string "string option"
  | RouteCartAdd oid oid
  | RouteCartRemove oid oid
  | SimpleCleanup
  | CartCleanup

fun serve :: "db \<Rightarrow> date \<Rightarrow> request \<Rightarrow> db" where
  "serve s now (AddToCart userId propertyId) = snd (addToCart s now userId propertyId)"
| "serve s now (RemoveFromCart userId propertyId) = snd (removeFromCart s now userId propertyId)"
| "serve s now (BuyerConfirmVisit userId propertyId) = snd (buyer_confirmVisit s now userId propertyId)"
| "serve s now (BrokerConfirmVisit userId propertyId buyerId m) =
     snd (broker_confirmVisit s now userId propertyId buyerId m)"
| "serve s now (RouteVisitConfirm userId propertyId m reqNotes) =
     snd (route_visit_confirm s now userId propertyId m reqNotes)"
| "serve s now (RouteCartAdd userId propertyId) = snd (route_cart_add s now userId propertyId)"
| "serve s now (RouteCartRemove userId propertyId) = snd (route_cart_remove s now userId propertyId)"
| "serve s now SimpleCleanup = simple_cleanupExpiredItems s now"
| "serve s now CartCleanup = cart_cleanupExpiredItems s now"

fun run :: "db \<Rightarrow> (date \<times> request) list \<Rightarrow> db" where
  "run s [] = s"
| "run s ((now, r) # rs) = run (serve s now r) rs"

text \<open>One step of the engine seen from the carts: where no two carts belong to the same
  buyer before (the schema declares \<^verbatim>\<open>buyer\<close> unique), none do after, and the terminal
  reservations are kept.\<close>

definition kept_step :: "db \<Rightarrow> db \<Rightarrow> bool" where
  "kept_step s s' \<longleftrightarrow>
     (distinct (map buyer (carts s)) \<longrightarrow> distinct (map buyer (carts s')) \<and> terminal_kept s s')"

subsection \<open>A concrete marketplace\<close>

text \<open>
  The scenario of the spec: a live property 1 priced 10,00,000, listed by its seller 10,
  with the broker 20 assigned, no rule in the rules collection, and the buyers 30 and 31.
  In \<open>scenario_db\<close> nobody holds the property; in \<open>reserved_db\<close> buyer 30 has reserved
  it at time 0 with the default settings, which is the state that
  \<^verbatim>\<open>/api/cart/add\<close> produces from \<open>scenario_db\<close>.
\<close>

definition scenario_property :: property_doc where
  "scenario_property =
     \<lparr> p_status = Live, p_price = 1000000, p_seller = 10, p_broker = Some 20,
       added_by_user = 10, added_by_role = ''seller'', p_cart_status = unlocked,
       commission_adder_rate = 0, commission_seller_rate = 0 \<rparr>"

definition scenario_db :: db where
  "scenario_db =
     \<lparr> properties = (\<lambda>_. None)(1 := Some scenario_property),
       carts = [], commissions = [], notifications = [], rules = [] \<rparr>"

definition reserved_db :: db where
  "reserved_db =
     \<lparr> properties = (\<lambda>_. None)(1 := Some (scenario_property\<lparr> p_cart_status := locked_by 30 0 \<rparr>)),
       carts = [\<lparr> buyer = 30, items = [new_item 1 0],
                  settings = \<lparr> max_properties = 5, visit_window_days = 7,
                               booking_window_days = 60 \<rparr>,
                  last_updated = 0 \<rparr>],
       commissions = [], notifications = [], rules = [] \<rparr>"

text \<open>\<open>confirmed_db\<close> is \<open>reserved_db\<close> after the broker route has confirmed the visit at
  day 3: the booking window runs from day 3 to day 63 on the item and on the lock.\<close>

definition confirmed_db :: db where
  "confirmed_db =
     \<lparr> properties = (\<lambda>_. None)(1 := Some (scenario_property
          \<lparr> p_cart_status := (locked_by 30 0)
               \<lparr> visit_confirmed := True, cs_visit_confirmed_at := Some (3 * day_ms),
                 cs_booking_window_start := Some (3 * day_ms),
                 cs_booking_window_end := Some (63 * day_ms) \<rparr> \<rparr>)),
       carts = [\<lparr> buyer = 30,
                  items = [(new_item 1 0)
                             \<lparr> visit_status := Confirmed, visit_confirmed_at := Some (3 * day_ms),
                               confirmed_by := Some 20, confirmation_method := Some ''manual'',
                               booking_window_start := Some (3 * day_ms),
                               booking_window_end := Some (63 * day_ms) \<rparr>],
                  settings = \<lparr> max_properties = 5, visit_window_days = 7,
                               booking_window_days = 60 \<rparr>,
                  last_updated = 3 * day_ms \<rparr>],
       commissions = [\<lparr> c_broker = 20, c_property = 1, c_property_price = 1000000,
                        c_commission_type = ''seller'', c_rate = 5 / 2, c_amount = 25000,
                        c_status = ''pending'' \<rparr>],
       notifications = [], rules = [] \<rparr>"

text \<open>Scenario D: the cart of buyer 30 holds five active reservations, of the properties
  2 to 6, with the limit at five; property 1 is free.\<close>

definition full_cart :: cart where
  "full_cart =
     \<lparr> buyer = 30, items = map (\<lambda>i. new_item i 0) [2, 3, 4, 5, 6],
       settings = \<lparr> max_properties = 5, visit_window_days = 7, booking_window_days = 60 \<rparr>,
       last_updated = 0 \<rparr>"

definition full_db :: db where
  "full_db =
     \<lparr> properties = (\<lambda>i. if i = 1 then Some scenario_property
                           else if 2 \<le> i \<and> i \<le> 6
                           then Some (scenario_property\<lparr> p_cart_status := locked_by 30 0 \<rparr>)
                           else None),
       carts = [full_cart], commissions = [], notifications = [], rules = [] \<rparr>"

text \<open>
  \<open>ruled_db\<close> is \<open>scenario_db\<close> with one active rule that configures a booking window of
  30 days. In \<open>ruled_reserved_db\<close> buyer 30 has first called \<open>addToCart\<close>, which stored the
  buyer's cart with the configured settings, and has then reserved property 1 through
  \<^verbatim>\<open>/api/cart/add\<close>, both at time 0.
\<close>

definition ruled_db :: db where
  "ruled_db =
     scenario_db\<lparr> rules := [\<lparr> rule_type = ''booking_window_days'', rule_value = 30,
                              is_active = True \<rparr>] \<rparr>"

definition ruled_reserved_db :: db where
  "ruled_reserved_db = snd (route_cart_add (snd (addToCart ruled_db 0 30 1)) 0 30 1)"

section \<open>Basic facts about numbers\<close>

lemma pow2_pos: "0 < pow2 k"
  by (simp add: pow2_def)

lemma round_half_even_nonneg: "0 \<le> y \<Longrightarrow> 0 \<le> round_half_even y"
  by (auto simp: round_half_even_def Let_def)

lemma js_round_nonneg: "0 \<le> x \<Longrightarrow> 0 \<le> js_round x"
  by (auto simp: js_round_def Let_def
        intro!: mult_nonneg_nonneg round_half_even_nonneg divide_nonneg_pos pow2_pos
          less_imp_le[OF pow2_pos])

text \<open>The rounding on some doubles and their neighbours: the literals 0.1 and 0.2, the
  sum \<^verbatim>\<open>0.1 + 0.2\<close>, a whole number beyond 53 bits, and values that are doubles
  already.\<close>

lemma js_round_examples:
  "js_round (1 / 10) = 3602879701896397 / 36028797018963968"
  "js_round (1 / 5) = 3602879701896397 / 18014398509481984"
  "js_add (js_round (1 / 10)) (js_round (1 / 5)) = 1351079888211149 / 4503599627370496"
  "js_round 9007199254740993 = 9007199254740992"
  "js_round (5 / 2) = 5 / 2"
  "js_round 1000000 = 1000000"
  "js_round (- (1 / 3)) = - (6004799503160661 / 18014398509481984)"
  by code_simp+

section \<open>Basic facts about the store\<close>

lemma saveCart_other [simp]:
  "properties (saveCart s now c) = properties s"
  "commissions (saveCart s now c) = commissions s"
  "notifications (saveCart s now c) = notifications s"
  "rules (saveCart s now c) = rules s"
  by (simp_all add: saveCart_def)

lemma updateLock_other [simp]:
  "carts (updateLock s p f) = carts s"
  "commissions (updateLock s p f) = commissions s"
  "notifications (updateLock s p f) = notifications s"
  "rules (updateLock s p f) = rules s"
  by (simp_all add: updateLock_def)

lemma createNotification_other:
  "createNotification s u t p = Some s' \<Longrightarrow>
     properties s' = properties s \<and> carts s' = carts s
     \<and> commissions s' = commissions s \<and> rules s' = rules s"
  by (auto simp: createNotification_def split: if_splits)

lemma notify_all_other [simp]:
  "properties (snd (notify_all s ns)) = properties s"
  "carts (snd (notify_all s ns)) = carts s"
  "commissions (snd (notify_all s ns)) = commissions s"
  "rules (snd (notify_all s ns)) = rules s"
proof (induction ns arbitrary: s)
  case Nil
  { case 1 show ?case by simp }
  { case 2 show ?case by simp }
  { case 3 show ?case by simp }
  { case 4 show ?case by simp }
next
  case (Cons n ns)
  obtain u t p where n: "n = (u, t, p)" by (cases n)
  { case 1 show ?case using Cons.IH(1)
      by (auto simp: n dest: createNotification_other split: option.splits) }
  { case 2 show ?case using Cons.IH(2)
      by (auto simp: n dest: createNotification_other split: option.splits) }
  { case 3 show ?case using Cons.IH(3)
      by (auto simp: n dest: createNotification_other split: option.splits) }
  { case 4 show ?case using Cons.IH(4)
      by (auto simp: n dest: createNotification_other split: option.splits) }
qed

lemma answer_after_snd [simp]: "snd (answer_after r) = snd r"
  by (simp add: answer_after_def)

lemma reserved_db_reached:
  "fst (route_cart_add scenario_db 0 30 1) = Success
   \<and> carts (snd (route_cart_add scenario_db 0 30 1)) = carts reserved_db
   \<and> properties (snd (route_cart_add scenario_db 0 30 1)) 1 = properties reserved_db 1"
  by code_simp

lemma confirmed_db_reached:
  "carts (snd (route_visit_confirm reserved_db (3 * day_ms) 20 1 ''manual'' None)) = carts confirmed_db
   \<and> properties (snd (route_visit_confirm reserved_db (3 * day_ms) 20 1 ''manual'' None)) 1
       = properties confirmed_db 1
   \<and> commissions (snd (route_visit_confirm reserved_db (3 * day_ms) 20 1 ''manual'' None))
       = commissions confirmed_db"
  by code_simp

text \<open>What \<open>find\<close> returns is the element that \<open>update_first\<close> rewrites.\<close>

lemma find_update_first:
  "find P xs = Some x \<Longrightarrow>
     \<exists>pre post. xs = pre @ x # post \<and> (\<forall>y\<in>set pre. \<not> P y)
                \<and> update_first P f xs = pre @ f x # post"
proof (induction xs)
  case Nil
  then show ?case by simp
next
  case (Cons a xs)
  show ?case
  proof (cases "P a")
    case True
    with Cons.prems have "a = x" by simp
    with True show ?thesis by (intro exI[of _ "[]"] exI[of _ xs]) simp
  next
    case False
    with Cons.prems have "find P xs = Some x" by simp
    from Cons.IH[OF this] obtain pre post where
      "xs = pre @ x # post" "\<forall>y\<in>set pre. \<not> P y" "update_first P f xs = pre @ f x # post"
      by blast
    with False show ?thesis by (intro exI[of _ "a # pre"] exI[of _ post]) simp
  qed
qed

text \<open>Removing or marking the only active item of a property leaves none; a saved cart is the
  cart found next; a second pass of a sweeper finds nothing to do.\<close>

lemma remove_first_none:
  "length (filter P xs) \<le> 1 \<Longrightarrow> \<not> list_ex P (remove_first P xs)"
proof (induction xs)
  case Nil
  then show ?case by simp
next
  case (Cons a xs)
  show ?case
  proof (cases "P a")
    case True
    with Cons.prems have "filter P xs = []" by simp
    then have "\<not> list_ex P xs" by (simp add: list_ex_iff filter_empty_conv)
    with True show ?thesis by simp
  next
    case False
    with Cons show ?thesis by simp
  qed
qed

lemma update_first_none:
  "length (filter P xs) \<le> 1 \<Longrightarrow> (\<And>x. \<not> P (f x)) \<Longrightarrow> \<not> list_ex P (update_first P f xs)"
proof (induction xs)
  case Nil
  then show ?case by simp
next
  case (Cons a xs)
  show ?case
  proof (cases "P a")
    case True
    with Cons.prems(1) have "filter P xs = []" by simp
    then have "\<not> list_ex P xs" by (simp add: list_ex_iff filter_empty_conv)
    with True Cons.prems(2) show ?thesis by simp
  next
    case False
    with Cons show ?thesis by simp
  qed
qed

lemma find_map_replace:
  "find (\<lambda>c. buyer c = b) cs = Some c \<Longrightarrow> buyer x = b \<Longrightarrow>
     find (\<lambda>c. buyer c = b) (map (\<lambda>c'. if buyer c' = b then x else c') cs) = Some x"
  by (induction cs) (auto split: if_splits)

lemma findCart_buyer: "findCart s b = Some c \<Longrightarrow> buyer c = b"
  by (auto simp: findCart_def find_Some_iff)

lemma findCart_saveCart:
  assumes "findCart s b = Some c" and "buyer c' = b"
  shows "findCart (saveCart s now c') b = Some (pre_save now c')"
proof -
  from assms(1) have ex: "list_ex (\<lambda>c. buyer c = b) (carts s)"
    by (auto simp: findCart_def find_Some_iff list_ex_iff)
  have "buyer (pre_save now c') = b" using assms(2) by (simp add: pre_save_def)
  from find_map_replace[OF assms(1)[unfolded findCart_def] this] ex assms(2)
  show ?thesis by (simp add: findCart_def saveCart_def)
qed

lemma findCart_carts: "carts s' = carts s \<Longrightarrow> findCart s' b = findCart s b"
  by (simp add: findCart_def)

lemma notify_all_unlock:
  "fst (notify_all s [(u, ''property_unlock'', p)])"
  by (simp add: createNotification_def notification_types_def)

lemma check_item_again:
  "check_item w now (fst (check_item w now item)) = (fst (check_item w now item), False)"
  by (auto simp: check_item_def Let_def split: option.splits)

lemma checkExpiredItems_again:
  "checkExpiredItems (snd (checkExpiredItems c now)) now = (False, snd (checkExpiredItems c now))"
proof -
  let ?w = "visit_window_days (settings c) * day_ms"
  let ?c' = "snd (checkExpiredItems c now)"
  have st: "settings ?c' = settings c" by (simp add: checkExpiredItems_def Let_def pre_save_def)
  have it: "items ?c' = map (\<lambda>item. fst (check_item ?w now item)) (items c)"
    by (simp add: checkExpiredItems_def Let_def pre_save_def)
  have no: "\<not> list_ex (\<lambda>item. snd (check_item ?w now item)) (items ?c')"
    by (simp add: it list_ex_iff check_item_again)
  have same: "map (\<lambda>item. fst (check_item ?w now item)) (items ?c') = items ?c'"
    by (simp add: it check_item_again)
  show ?thesis
    using no same by (simp add: checkExpiredItems_def [of ?c'] Let_def st)
qed

lemma unlock_where_again:
  "(\<And>l. cond l \<Longrightarrow> in_cart l) \<Longrightarrow> unlock_where cond (unlock_where cond s) = unlock_where cond s"
  by (auto simp: unlock_where_def fun_eq_iff map_option_case split: option.splits)


lemma simple_cleanup_again:
  "simple_cleanupExpiredItems (simple_cleanupExpiredItems s now) now = simple_cleanupExpiredItems s now"
proof -
  let ?s' = "simple_cleanupExpiredItems s now"
  have "properties (simple_cleanupExpiredItems ?s' now) = properties ?s'"
  proof (rule ext)
    fix x
    show "properties (simple_cleanupExpiredItems ?s' now) x = properties ?s' x"
      by (cases "properties s x")
         (auto simp: simple_cleanupExpiredItems_def Let_def unlock_where_def
            visit_window_over_def booking_window_over_def split: option.splits)
  qed
  moreover have "simple_cleanupExpiredItems ?s' now
      = ?s'\<lparr> properties := properties (simple_cleanupExpiredItems ?s' now) \<rparr>"
    by (simp add: simple_cleanupExpiredItems_def Let_def unlock_where_def)
  ultimately show ?thesis by simp
qed

text \<open>The route \<^verbatim>\<open>/api/cart/add\<close> as one expression.\<close>

lemma route_cart_add_eq:
  "route_cart_add s now userId propertyId =
     (case properties s propertyId of
        None \<Rightarrow> (Rejected 404 ''Property not found'', s)
      | Some p \<Rightarrow>
          if in_cart (p_cart_status p) then (Rejected 400 in_another_cart_message, s)
          else if p_status p \<noteq> Live then (Rejected 400 ''Property is not available for cart'', s)
          else
            let c = (case findCart s userId of
                       Some c \<Rightarrow> c
                     | None \<Rightarrow> \<lparr> buyer = userId, items = [],
                                 settings = \<lparr> max_properties = 5, visit_window_days = 7,
                                              booking_window_days = 60 \<rparr>,
                                 last_updated = now \<rparr>)
            in if activeItems c \<ge> max_properties (settings c)
               then (Rejected 400 ''Cart limit reached'', s)
               else if list_ex (active_for propertyId) (items c)
               then (Rejected 400 ''Property is already in your cart'', s)
               else
                 let s1 = updateLock s propertyId (\<lambda>_. locked_by userId now);
                     s2 = saveCart s1 now (c\<lparr> items := items c @ [new_item propertyId now] \<rparr>)
                 in (Success, s2))"
  by (simp add: route_cart_add_def route_cart_add_check_def route_cart_add_commit_def Let_def
        split: option.splits)

text \<open>No operation rewrites a reservation that is not active: the lookups select active
  items only, and the expiry check leaves the others alone. This is lifted from lists
  to carts, to the store and to every handler.\<close>

lemma terminal_update_first:
  "(\<And>x. P x \<Longrightarrow> status x = Active) \<Longrightarrow>
   subseq (filter (\<lambda>item. status item \<noteq> Active) xs)
          (filter (\<lambda>item. status item \<noteq> Active) (update_first P f xs))"
  by (induction xs) auto

lemma terminal_remove_first:
  "(\<And>x. P x \<Longrightarrow> status x = Active) \<Longrightarrow>
   filter (\<lambda>item. status item \<noteq> Active) (remove_first P xs)
     = filter (\<lambda>item. status item \<noteq> Active) xs"
  by (induction xs) auto

lemma terminal_map:
  "(\<And>x. status x \<noteq> Active \<Longrightarrow> g x = x) \<Longrightarrow>
   subseq (filter (\<lambda>item. status item \<noteq> Active) xs)
          (filter (\<lambda>item. status item \<noteq> Active) (map g xs))"
  by (induction xs) auto

lemma check_item_terminal:
  "status item \<noteq> Active \<Longrightarrow> fst (check_item w now item) = item"
  by (simp add: check_item_def)

lemma active_for_Active: "active_for p x \<Longrightarrow> status x = Active"
  by (simp add: active_for_def)

lemma terminal_items_pre_save [simp]: "terminal_items (pre_save now c) = terminal_items c"
  by (simp add: terminal_items_def pre_save_def)

lemma buyer_pre_save [simp]: "buyer (pre_save now c) = buyer c"
  by (simp add: pre_save_def)

lemma terminal_updated:
  "subseq (terminal_items c)
     (terminal_items (c\<lparr> items := update_first (active_for p) f (items c) \<rparr>))"
  using terminal_update_first[of "active_for p" "items c" f]
  by (simp add: terminal_items_def active_for_Active)

lemma terminal_removed:
  "terminal_items (c\<lparr> items := remove_first (active_for p) (items c) \<rparr>) = terminal_items c"
  using terminal_remove_first[of "active_for p" "items c"]
  by (simp add: terminal_items_def active_for_Active)

lemma terminal_pushed:
  "status x = Active \<Longrightarrow> terminal_items (c\<lparr> items := items c @ [x] \<rparr>) = terminal_items c"
  by (simp add: terminal_items_def)

lemma terminal_checked:
  "subseq (terminal_items c) (terminal_items (snd (checkExpiredItems c now)))"
  using terminal_map[of "\<lambda>item. fst (check_item (visit_window_days (settings c) * day_ms) now item)" "items c"]
  by (simp add: checkExpiredItems_def Let_def terminal_items_def pre_save_def check_item_terminal)

lemma buyer_checked [simp]: "buyer (snd (checkExpiredItems c now)) = buyer c"
  by (simp add: checkExpiredItems_def Let_def pre_save_def)

lemma kept_step_refl: "carts s' = carts s \<Longrightarrow> kept_step s s'"
  by (auto simp: kept_step_def terminal_kept_def findCart_def)

lemma kept_step_trans: "kept_step s s1 \<Longrightarrow> kept_step s1 s2 \<Longrightarrow> kept_step s s2"
  unfolding kept_step_def terminal_kept_def
  by (meson subseq_order.order_trans)

lemma kept_step_carts: "kept_step s s1 \<Longrightarrow> carts s2 = carts s1 \<Longrightarrow> kept_step s s2"
  by (auto simp: kept_step_def terminal_kept_def findCart_def)

lemma find_map_buyer:
  "(\<And>c. buyer (g c) = buyer c) \<Longrightarrow>
   find (\<lambda>c. buyer c = b) (map g cs) = map_option g (find (\<lambda>c. buyer c = b) cs)"
  by (induction cs) auto

lemma distinct_find_buyer:
  "distinct (map buyer cs) \<Longrightarrow> c0 \<in> set cs \<Longrightarrow> find (\<lambda>c. buyer c = buyer c0) cs = Some c0"
  by (induction cs) (auto simp: image_iff)

lemma kept_step_map:
  assumes "\<And>c. buyer (g c) = buyer c"
    and "\<And>c. distinct (map buyer (carts s)) \<Longrightarrow> c \<in> set (carts s) \<Longrightarrow>
             subseq (terminal_items c) (terminal_items (g c))"
    and "carts s' = map g (carts s)"
  shows "kept_step s s'"
proof -
  have "map (buyer \<circ> g) (carts s) = map buyer (carts s)"
    by (simp add: assms(1))
  then have b: "map buyer (carts s') = map buyer (carts s)"
    by (simp only: assms(3) map_map)
  show ?thesis
    unfolding kept_step_def terminal_kept_def
  proof (intro impI conjI allI)
    assume d: "distinct (map buyer (carts s))"
    show "distinct (map buyer (carts s'))" using d by (simp only: b)
    fix bb c assume f: "findCart s bb = Some c"
    then have "c \<in> set (carts s)" by (auto simp: findCart_def find_Some_iff)
    from assms(2)[OF d this] have "subseq (terminal_items c) (terminal_items (g c))" .
    moreover have "findCart s' bb = Some (g c)"
      using f find_map_buyer[of g bb "carts s", OF assms(1)] assms(3) by (simp add: findCart_def)
    ultimately show "\<exists>c'. findCart s' bb = Some c' \<and> subseq (terminal_items c) (terminal_items c')"
      by blast
  qed
qed

lemma kept_step_save:
  assumes "c0 \<in> set (carts s)" and "buyer c = buyer c0"
    and "subseq (terminal_items c0) (terminal_items c)"
  shows "kept_step s (saveCart s now c)"
proof (rule kept_step_map[where g = "\<lambda>c'. if buyer c' = buyer c then pre_save now c else c'"])
  show "buyer (if buyer c' = buyer c then pre_save now c else c') = buyer c'" for c'
    by simp
  show "subseq (terminal_items c') (terminal_items (if buyer c' = buyer c then pre_save now c else c'))"
    if d: "distinct (map buyer (carts s))" and m: "c' \<in> set (carts s)" for c'
  proof (cases "buyer c' = buyer c")
    case True
    have e: "buyer c' = buyer c0" using True assms(2) by simp
    have "find (\<lambda>x. buyer x = buyer c0) (carts s) = Some c'"
      using distinct_find_buyer[OF d m] unfolding e .
    moreover have "find (\<lambda>x. buyer x = buyer c0) (carts s) = Some c0"
      by (rule distinct_find_buyer[OF d assms(1)])
    ultimately have "c' = c0" by simp
    then show ?thesis using True assms(3) by simp
  next
    case False
    then show ?thesis by simp
  qed
  have "list_ex (\<lambda>c'. buyer c' = buyer c) (carts s)"
    using assms(1,2) by (auto simp: list_ex_iff)
  then show "carts (saveCart s now c) = map (\<lambda>c'. if buyer c' = buyer c then pre_save now c else c') (carts s)"
    by (simp add: saveCart_def)
qed

lemma findCart_None: "findCart s b = None \<longleftrightarrow> \<not> list_ex (\<lambda>c. buyer c = b) (carts s)"
  by (auto simp: findCart_def find_None_iff list_ex_iff)

lemma find_append_left: "find P xs = Some x \<Longrightarrow> find P (xs @ ys) = Some x"
  by (induction xs) (auto split: if_splits)

lemma kept_step_append:
  assumes "findCart s (buyer c) = None" and "carts s' = carts s @ [c]"
  shows "kept_step s s'"
proof -
  have n: "buyer c \<notin> buyer ` set (carts s)"
    using assms(1) by (auto simp: findCart_None list_ex_iff)
  have k: "findCart s' b = Some c'" if "findCart s b = Some c'" for b c'
    using that assms(2) by (simp add: findCart_def find_append_left)
  show ?thesis
    unfolding kept_step_def terminal_kept_def
    using n k assms(2) by (auto simp: )
qed

lemma kept_step_new:
  "findCart s (buyer c) = None \<Longrightarrow> kept_step s (saveCart s now c)"
  by (rule kept_step_append[where c = "pre_save now c"]) (simp_all add: saveCart_def findCart_None)

lemma findCart_mem: "findCart s b = Some c \<Longrightarrow> c \<in> set (carts s)"
  by (auto simp: findCart_def find_Some_iff)

lemma kept_step_cart_of_buyer:
  assumes "cart_of_buyer s now u = Some (c, s1)"
  shows "kept_step s s1 \<and> c \<in> set (carts s1)"
proof (cases "findCart s u")
  case (Some c')
  with assms have "c = c'" "s1 = s" by (simp_all add: cart_of_buyer_def)
  with Some show ?thesis by (simp add: kept_step_refl findCart_mem)
next
  case None
  with assms have s1: "carts s1 = carts s @ [c]" and b: "buyer c = u"
    by (auto simp: cart_of_buyer_def Let_def split: if_splits)
  from None b have "findCart s (buyer c) = None" by simp
  from kept_step_append[OF this s1] s1 show ?thesis by simp
qed

lemma kept_step_addToCart: "kept_step s (snd (addToCart s now u p))"
proof (cases "findAvailable s p")
  case None
  then show ?thesis by (simp add: addToCart_def kept_step_refl)
next
  case (Some pr)
  show ?thesis
  proof (cases "cart_of_buyer s now u")
    case None
    with Some show ?thesis by (simp add: addToCart_def kept_step_refl)
  next
    case (Some r)
    obtain c s1 where r: "r = (c, s1)" by (cases r)
    from kept_step_cart_of_buyer[of s now u c s1] Some r have "kept_step s s1" by simp
    with \<open>findAvailable s p = Some pr\<close> Some r show ?thesis by (simp add: addToCart_def)
  qed
qed

lemma kept_step_removeFromCart: "kept_step s (snd (removeFromCart s now u p))"
proof (cases "findCart s u")
  case None
  then show ?thesis by (simp add: removeFromCart_def kept_step_refl)
next
  case (Some c)
  show ?thesis
  proof (cases "list_ex (active_for p) (items c)")
    case False
    with Some show ?thesis by (simp add: removeFromCart_def kept_step_refl)
  next
    case True
    let ?c' = "c\<lparr> items := remove_first (active_for p) (items c) \<rparr>"
    have "kept_step s (saveCart s now ?c')"
      using kept_step_save[OF findCart_mem[OF Some], of ?c' now] by (simp add: terminal_removed)
    moreover have "carts (snd (removeFromCart s now u p)) = carts (saveCart s now ?c')"
      using Some True
      by (simp add: removeFromCart_def Let_def del: notify_all.simps split: option.splits)
    ultimately show ?thesis by (rule kept_step_carts)
  qed
qed

lemma kept_step_updated:
  assumes "c \<in> set (carts s)"
    and "carts s' = carts s \<or> carts s' = carts (saveCart s now (c\<lparr> items := update_first (active_for p) f (items c) \<rparr>))"
  shows "kept_step s s'"
proof -
  let ?c' = "c\<lparr> items := update_first (active_for p) f (items c) \<rparr>"
  have "kept_step s (saveCart s now ?c')"
    using kept_step_save[OF assms(1), of ?c' now] terminal_updated[of c p f] by simp
  with assms(2) show ?thesis by (auto intro: kept_step_refl kept_step_carts)
qed

lemma kept_step_buyer_confirmVisit: "kept_step s (snd (buyer_confirmVisit s now u p))"
proof (cases "findCart s u")
  case None
  then show ?thesis by (simp add: buyer_confirmVisit_def kept_step_refl)
next
  case (Some c)
  show ?thesis
    by (rule kept_step_updated[OF findCart_mem[OF Some], where now = now and p = p
          and f = "\<lambda>item. item\<lparr> visit_status := Confirmed, visit_confirmed_at := Some now,
                                confirmed_by := Some u, booking_window_start := Some now \<rparr>"])
       (simp add: buyer_confirmVisit_def Some Let_def del: notify_all.simps
          split: option.splits)
qed

lemma kept_step_broker_confirmVisit: "kept_step s (snd (broker_confirmVisit s now u p b m))"
proof (cases "findCart s b")
  case None
  then show ?thesis by (simp add: broker_confirmVisit_def kept_step_refl)
next
  case (Some c)
  show ?thesis
    by (rule kept_step_updated[OF findCart_mem[OF Some], where now = now and p = p
          and f = "\<lambda>item. item\<lparr> visit_status := Confirmed, visit_confirmed_at := Some now,
                                confirmed_by := Some u, booking_window_start := Some now \<rparr>"])
       (auto simp: broker_confirmVisit_def Some Let_def createCommission_def
          simp del: notify_all.simps split: option.splits if_splits)
qed

lemma kept_step_route_cart_remove: "kept_step s (snd (route_cart_remove s now u p))"
proof (cases "findCart s u")
  case None
  then show ?thesis by (simp add: route_cart_remove_def kept_step_refl)
next
  case (Some c)
  show ?thesis
    by (rule kept_step_updated[OF findCart_mem[OF Some], where now = now and p = p
          and f = "\<lambda>item. item\<lparr> status := Removed \<rparr>"])
       (simp add: route_cart_remove_def Some Let_def)
qed

lemma kept_step_route_visit_confirm: "kept_step s (snd (route_visit_confirm s now u p m n))"
proof (cases "find (\<lambda>c. list_ex (\<lambda>item. property item = p) (items c)
                          \<and> list_ex (\<lambda>item. status item = Active) (items c)) (carts s)")
  case None
  then show ?thesis by (simp add: route_visit_confirm_def kept_step_refl split: option.splits)
next
  case (Some c)
  then have mem: "c \<in> set (carts s)" by (auto simp: find_Some_iff)
  show ?thesis
    by (rule kept_step_updated[OF mem, where now = now and p = p
          and f = "\<lambda>item. item\<lparr> visit_status := Confirmed, visit_confirmed_at := Some now,
                                confirmed_by := Some u, confirmation_method := Some m,
                                booking_window_start := Some now,
                                booking_window_end := Some (now + 60 * day_ms),
                                item_notes := n \<rparr>"])
       (auto simp: route_visit_confirm_def Some Let_def createCommission_def
          calculateCommission_def split: option.splits if_splits)
qed

lemma kept_step_route_cart_add: "kept_step s (snd (route_cart_add s now u p))"
proof (cases "findCart s u")
  case None
  let ?c = "\<lparr> buyer = u, items = [],
              settings = \<lparr> max_properties = 5, visit_window_days = 7, booking_window_days = 60 \<rparr>,
              last_updated = now \<rparr>"
  let ?c' = "?c\<lparr> items := items ?c @ [new_item p now] \<rparr>"
  have "kept_step s (saveCart s now ?c')"
    using None by (intro kept_step_new) simp
  moreover have "carts (snd (route_cart_add s now u p)) = carts s
      \<or> carts (snd (route_cart_add s now u p)) = carts (saveCart s now ?c')"
    using None
    by (auto simp: route_cart_add_eq Let_def saveCart_def updateLock_def split: option.splits)
  ultimately show ?thesis by (auto intro: kept_step_refl kept_step_carts)
next
  case (Some c)
  let ?c' = "c\<lparr> items := items c @ [new_item p now] \<rparr>"
  have "terminal_items ?c' = terminal_items c"
    by (rule terminal_pushed) (simp add: new_item_def)
  then have "kept_step s (saveCart s now ?c')"
    using kept_step_save[OF findCart_mem[OF Some], of ?c' now] by simp
  moreover have "carts (snd (route_cart_add s now u p)) = carts s
      \<or> carts (snd (route_cart_add s now u p)) = carts (saveCart s now ?c')"
    using Some
    by (auto simp: route_cart_add_eq Let_def saveCart_def updateLock_def split: option.splits)
  ultimately show ?thesis by (auto intro: kept_step_refl kept_step_carts)
qed

lemma kept_step_simple_cleanup: "kept_step s (simple_cleanupExpiredItems s now)"
  by (rule kept_step_refl) (simp add: simple_cleanupExpiredItems_def Let_def unlock_where_def)

lemma kept_step_cart_cleanup: "kept_step s (cart_cleanupExpiredItems s now)"
  by (rule kept_step_map[where g = "\<lambda>c. snd (checkExpiredItems c now)"])
     (simp_all add: terminal_checked cart_cleanupExpiredItems_def Let_def unlock_where_def
        cleanExpiredItems_def)

lemma kept_step_serve: "kept_step s (serve s now r)"
  by (cases r)
     (simp_all add: kept_step_addToCart kept_step_removeFromCart kept_step_buyer_confirmVisit
        kept_step_broker_confirmVisit kept_step_route_visit_confirm kept_step_route_cart_add
        kept_step_route_cart_remove kept_step_simple_cleanup kept_step_cart_cleanup)

lemma kept_step_run: "kept_step s (run s rs)"
proof (induction rs arbitrary: s)
  case Nil
  show ?case by (simp add: kept_step_refl)
next
  case (Cons a rs)
  obtain now r where a: "a = (now, r)" by (cases a)
  from kept_step_serve[of s now r] Cons.IH[of "serve s now r"]
  show ?case unfolding a by (simp add: kept_step_trans)
qed

lemma terminal_method_results:
  "subseq (terminal_items c) (terminal_items (snd (addItem c now p)))"
  "subseq (terminal_items c) (terminal_items (snd (removeItem c now p)))"
  "subseq (terminal_items c) (terminal_items (snd (cart_confirmVisit c now p u m)))"
proof -
  show "subseq (terminal_items c) (terminal_items (snd (addItem c now p)))"
    by (simp add: addItem_def terminal_pushed new_item_def)
  show "subseq (terminal_items c) (terminal_items (snd (removeItem c now p)))"
    by (simp add: removeItem_def terminal_updated)
  show "subseq (terminal_items c) (terminal_items (snd (cart_confirmVisit c now p u m)))"
    by (simp add: cart_confirmVisit_def terminal_updated split: option.splits)
qed

lemma check_item_due:
  "status item = Active \<Longrightarrow> visit_status item = Pending \<Longrightarrow> now - added_at item > w \<Longrightarrow>
     status (fst (check_item w now item)) = Expired"
  by (simp add: check_item_def)

lemma checkExpiredItems_due:
  assumes "i < length (items c)" and "status (items c ! i) = Active"
    and "visit_status (items c ! i) = Pending"
    and "now - added_at (items c ! i) > visit_window_days (settings c) * day_ms"
  shows "status (items (snd (checkExpiredItems c now)) ! i) = Expired"
  using assms by (simp add: checkExpiredItems_def Let_def pre_save_def check_item_due)

section \<open>Commission arithmetic\<close>

text \<open>
  C10. \<open>calculateCommission\<close> was claimed to be additive over the commission types for
  every price \<open>p\<close> and all rates \<open>a\<close> and \<open>s\<close>: the amount of the \<^verbatim>\<open>'adder_seller'\<close>
  result equal to the sum of the amounts of the \<^verbatim>\<open>'adder'\<close> and the \<^verbatim>\<open>'seller'\<close>
  result.

  The function computes on doubles. For the price 1000000 and the rates 0.1 and 0.2 the
  combined rate is 0.30000000000000004 and the combined amount 3000.0000000000005,
  while the separate amounts are 1000 and 2000 and add up to 3000.
\<close>

theorem calculateCommission_not_additive:
  "map_option rate
     (calculateCommission 1000000 ''adder_seller'' (Some (js_round (1 / 10))) (Some (js_round (1 / 5))))
     = Some (1351079888211149 / 4503599627370496)
   \<and> map_option amount
        (calculateCommission 1000000 ''adder_seller'' (Some (js_round (1 / 10))) (Some (js_round (1 / 5))))
     = Some (6597069766656001 / 2199023255552)
   \<and> map_option amount
        (calculateCommission 1000000 ''adder'' (Some (js_round (1 / 10))) (Some (js_round (1 / 5))))
     = Some 1000
   \<and> map_option amount
        (calculateCommission 1000000 ''seller'' (Some (js_round (1 / 10))) (Some (js_round (1 / 5))))
     = Some 2000
   \<and> js_add 1000 2000 = 3000
   \<and> js_add 1000 2000 \<noteq> 6597069766656001 / 2199023255552"
  by code_simp

text \<open>
  C10, as the code has it. For every price \<open>p\<close> and all rates \<open>a\<close> and \<open>s\<close> the
  \<^verbatim>\<open>'adder'\<close> result has rate \<open>a\<close> and amount \<open>(p * a) / 100\<close>, the \<^verbatim>\<open>'seller'\<close> result
  rate \<open>s\<close> and amount \<open>(p * s) / 100\<close>, and the \<^verbatim>\<open>'adder_seller'\<close> result the rate
  \<open>a + s\<close> and the amount \<open>(p * (a + s)) / 100\<close> computed from that combined rate, each
  operator rounding to a double. Where the sum of the rates, the three products and the
  three quotients are doubles themselves, so that nothing is rounded, the combined
  amount is \<open>p * (a + s) / 100\<close> exactly and equals the sum of the two separate amounts.
  For a type outside the three the function throws, that is, returns no value.
\<close>

theorem calculateCommission_types:
  "calculateCommission p ''adder'' (Some a) (Some s)
     = Some \<lparr> rate = a, amount = js_div (js_mul p a) 100 \<rparr>
   \<and> calculateCommission p ''seller'' (Some a) (Some s)
     = Some \<lparr> rate = s, amount = js_div (js_mul p s) 100 \<rparr>
   \<and> calculateCommission p ''adder_seller'' (Some a) (Some s)
     = Some \<lparr> rate = js_add a s, amount = js_div (js_mul p (js_add a s)) 100 \<rparr>
   \<and> (js_round (a + s) = a + s
        \<and> js_round (p * a) = p * a \<and> js_round (p * a / 100) = p * a / 100
        \<and> js_round (p * s) = p * s \<and> js_round (p * s / 100) = p * s / 100
        \<and> js_round (p * (a + s)) = p * (a + s)
        \<and> js_round (p * (a + s) / 100) = p * (a + s) / 100
        \<longrightarrow> calculateCommission p ''adder_seller'' (Some a) (Some s)
              = Some \<lparr> rate = a + s, amount = p * (a + s) / 100 \<rparr>
            \<and> js_add (js_div (js_mul p a) 100) (js_div (js_mul p s) 100)
              = js_div (js_mul p (js_add a s)) 100)
   \<and> (ty \<noteq> ''adder'' \<and> ty \<noteq> ''seller'' \<and> ty \<noteq> ''adder_seller''
        \<longrightarrow> calculateCommission p ty (Some a) (Some s) = None)"
proof -
  have sw: "calculateCommission p ''adder'' (Some a) (Some s)
       = Some \<lparr> rate = a, amount = js_div (js_mul p a) 100 \<rparr>"
    "calculateCommission p ''seller'' (Some a) (Some s)
       = Some \<lparr> rate = s, amount = js_div (js_mul p s) 100 \<rparr>"
    "calculateCommission p ''adder_seller'' (Some a) (Some s)
       = Some \<lparr> rate = js_add a s, amount = js_div (js_mul p (js_add a s)) 100 \<rparr>"
    by (simp_all add: calculateCommission_def Let_def)
  have other: "calculateCommission p ty (Some a) (Some s) = None"
    if "ty \<noteq> ''adder''" "ty \<noteq> ''seller''" "ty \<noteq> ''adder_seller''"
    using that by (simp add: calculateCommission_def Let_def)
  have exact: "calculateCommission p ''adder_seller'' (Some a) (Some s)
              = Some \<lparr> rate = a + s, amount = p * (a + s) / 100 \<rparr>
            \<and> js_add (js_div (js_mul p a) 100) (js_div (js_mul p s) 100)
              = js_div (js_mul p (js_add a s)) 100"
    if h: "js_round (a + s) = a + s"
      "js_round (p * a) = p * a" "js_round (p * a / 100) = p * a / 100"
      "js_round (p * s) = p * s" "js_round (p * s / 100) = p * s / 100"
      "js_round (p * (a + s)) = p * (a + s)"
      "js_round (p * (a + s) / 100) = p * (a + s) / 100"
  proof -
    have r: "js_add a s = a + s" using h(1) by (simp only: js_add_def)
    have c: "js_div (js_mul p (a + s)) 100 = p * (a + s) / 100"
      using h(6,7) by (simp only: js_div_def js_mul_def)
    have x: "js_div (js_mul p a) 100 = p * a / 100"
      using h(2,3) by (simp only: js_div_def js_mul_def)
    have y: "js_div (js_mul p s) 100 = p * s / 100"
      using h(4,5) by (simp only: js_div_def js_mul_def)
    have "p * a / 100 + p * s / 100 = p * (a + s) / 100"
      by (simp add: distrib_left add_divide_distrib)
    then have z: "js_add (p * a / 100) (p * s / 100) = p * (a + s) / 100"
      using h(7) by (simp only: js_add_def)
    have "calculateCommission p ''adder_seller'' (Some a) (Some s)
              = Some \<lparr> rate = a + s, amount = p * (a + s) / 100 \<rparr>"
      by (simp only: sw(3) r c)
    moreover have "js_add (js_div (js_mul p a) 100) (js_div (js_mul p s) 100)
              = js_div (js_mul p (js_add a s)) 100"
      by (simp only: x y z r c)
    ultimately show ?thesis by (rule conjI)
  qed
  from sw other exact show ?thesis by blast
qed

theorem calculateCommission_types_witness:
  "js_round (1 + 2) = 1 + 2
   \<and> js_round (1000000 * 1) = 1000000 * 1 \<and> js_round (1000000 * 1 / 100) = 1000000 * 1 / 100
   \<and> js_round (1000000 * 2) = 1000000 * 2 \<and> js_round (1000000 * 2 / 100) = 1000000 * 2 / 100
   \<and> js_round (1000000 * (1 + 2)) = 1000000 * (1 + 2)
   \<and> js_round (1000000 * (1 + 2) / 100) = 1000000 * (1 + 2) / 100
   \<and> calculateCommission 1000000 ''adder_seller'' (Some 1) (Some 2)
       = Some \<lparr> rate = 3, amount = 30000 \<rparr>
   \<and> js_add (js_div (js_mul 1000000 1) 100) (js_div (js_mul 1000000 2) 100)
       = js_div (js_mul 1000000 (js_add 1 2)) 100
   \<and> ''bonus'' \<noteq> ''adder'' \<and> ''bonus'' \<noteq> ''seller'' \<and> ''bonus'' \<noteq> ''adder_seller''
   \<and> calculateCommission 1000000 ''bonus'' (Some 1) (Some 2) = None"
proof -
  have h: "js_round (1 + 2) = 1 + 2"
    "js_round (1000000 * 1) = 1000000 * 1" "js_round (1000000 * 1 / 100) = 1000000 * 1 / 100"
    "js_round (1000000 * 2) = 1000000 * 2" "js_round (1000000 * 2 / 100) = 1000000 * 2 / 100"
    "js_round (1000000 * (1 + 2)) = 1000000 * (1 + 2)"
    "js_round (1000000 * (1 + 2) / 100) = 1000000 * (1 + 2) / 100"
    by code_simp+
  have n: "''bonus'' \<noteq> ''adder''" "''bonus'' \<noteq> ''seller''" "''bonus'' \<noteq> ''adder_seller''"
    by simp_all
  from calculateCommission_types[of 1000000 1 2 "''bonus''"] h n
  have "calculateCommission 1000000 ''adder_seller'' (Some 1) (Some 2)
          = Some \<lparr> rate = 1 + 2, amount = 1000000 * (1 + 2) / 100 \<rparr>"
    and "js_add (js_div (js_mul 1000000 1) 100) (js_div (js_mul 1000000 2) 100)
          = js_div (js_mul 1000000 (js_add 1 2)) 100"
    and "calculateCommission 1000000 ''bonus'' (Some 1) (Some 2) = None"
    by blast+
  with h n show ?thesis by simp
qed

section \<open>Reservation\<close>

text \<open>
  The capacity check where it is written out: the cart method \<open>addItem\<close> compares the
  number of active items with \<^verbatim>\<open>settings.max_properties\<close> after its duplicate check,
  and the route \<^verbatim>\<open>/api/cart/add\<close> does the same comparison before its duplicate
  check. At capacity both fail and change nothing, with the capacity message when
  nothing else stands against the reservation; below the limit neither gives the
  capacity message.
\<close>

lemma capacity_check_written_out:
  "(max_properties (settings c) \<le> activeItems c \<longrightarrow>
      fst (addItem c now propertyId) \<noteq> None
      \<and> snd (addItem c now propertyId) = c
      \<and> (\<not> isPropertyInCart c propertyId \<longrightarrow> fst (addItem c now propertyId) = Some ''Cart limit reached'')
      \<and> (findCart s userId = Some c \<longrightarrow>
            fst (route_cart_add s now userId propertyId) \<noteq> Success
            \<and> snd (route_cart_add s now userId propertyId) = s
            \<and> (properties s propertyId = Some p \<and> \<not> in_cart (p_cart_status p) \<and> p_status p = Live
                \<longrightarrow> fst (route_cart_add s now userId propertyId) = Rejected 400 ''Cart limit reached'')))
   \<and> (activeItems c < max_properties (settings c) \<longrightarrow>
      fst (addItem c now propertyId) \<noteq> Some ''Cart limit reached''
      \<and> (findCart s userId = Some c \<longrightarrow>
            fst (route_cart_add s now userId propertyId) \<noteq> Rejected 400 ''Cart limit reached''))
   \<and> (findCart s userId = None \<longrightarrow>
        fst (route_cart_add s now userId propertyId) \<noteq> Rejected 400 ''Cart limit reached'')"
proof -
  have a: "fst (addItem c now propertyId) \<noteq> None \<and> snd (addItem c now propertyId) = c
      \<and> (\<not> isPropertyInCart c propertyId \<longrightarrow> fst (addItem c now propertyId) = Some ''Cart limit reached'')"
    if "max_properties (settings c) \<le> activeItems c"
    using that by (simp add: addItem_def)
  have b: "fst (route_cart_add s now userId propertyId) \<noteq> Success
            \<and> snd (route_cart_add s now userId propertyId) = s
            \<and> (properties s propertyId = Some p \<and> \<not> in_cart (p_cart_status p) \<and> p_status p = Live
                \<longrightarrow> fst (route_cart_add s now userId propertyId) = Rejected 400 ''Cart limit reached'')"
    if "max_properties (settings c) \<le> activeItems c" "findCart s userId = Some c"
    using that by (auto simp: route_cart_add_eq Let_def split: option.splits)
  have c: "fst (addItem c now propertyId) \<noteq> Some ''Cart limit reached''"
    if "activeItems c < max_properties (settings c)"
    using that by (simp add: addItem_def)
  have d: "fst (route_cart_add s now userId propertyId) \<noteq> Rejected 400 ''Cart limit reached''"
    if "activeItems c < max_properties (settings c)" "findCart s userId = Some c"
    using that
    by (auto simp: route_cart_add_eq Let_def in_another_cart_message_def split: option.splits)
  have e: "fst (route_cart_add s now userId propertyId) \<noteq> Rejected 400 ''Cart limit reached''"
    if "findCart s userId = None"
    using that
    by (auto simp: route_cart_add_eq Let_def in_another_cart_message_def activeItems_def
          split: option.splits)
  from a b c d e show ?thesis by blast
qed

text \<open>
  C2. A buyer whose number of active reservations has reached \<open>max_properties\<close> is to be
  turned away with a capacity rejection and no change of state, and a buyer below the
  limit is not to be rejected for capacity.

  In \<open>full_db\<close> buyer 30 holds five active reservations with the limit at five, and
  property 1 is live and free. The route and the cart method answer the capacity
  rejection. The controller \<open>addToCart\<close> does not: its check is the call of
  \<^verbatim>\<open>cart.canAddProperty()\<close>, which the cart schema does not define, and the request
  is answered with status 500, as is the request of a buyer with room in the cart. The
  message that the controller has ready for the rejection,
  \<^verbatim>\<open>'You can only add N properties to cart'\<close>, is never sent.
\<close>

theorem addToCart_capacity_check_throws:
  "max_properties (settings full_cart) \<le> activeItems full_cart
   \<and> findCart full_db 30 = Some full_cart
   \<and> addToCart full_db 9 30 1 = (ServerError, full_db)
   \<and> route_cart_add full_db 9 30 1 = (Rejected 400 ''Cart limit reached'', full_db)
   \<and> addItem full_cart 9 1 = (Some ''Cart limit reached'', full_cart)
   \<and> fst (addToCart scenario_db 9 30 1) = ServerError
   \<and> fst (route_cart_add scenario_db 9 30 1) = Success"
proof -
  have h1: "max_properties (settings full_cart) \<le> activeItems full_cart" by code_simp
  have h2: "findCart full_db 30 = Some full_cart" by code_simp
  have h3: "properties full_db 1 = Some scenario_property" by (simp add: full_db_def)
  have h4: "\<not> in_cart (p_cart_status scenario_property)" "p_status scenario_property = Live"
    by (simp_all add: scenario_property_def unlocked_def)
  have h5: "\<not> isPropertyInCart full_cart 1" by code_simp
  have av: "findAvailable full_db 1 = Some scenario_property"
    using h3 h4 by (simp add: findAvailable_def)
  have cb: "cart_of_buyer full_db 9 30 = Some (full_cart, full_db)"
    by (simp add: cart_of_buyer_def h2)
  have c: "addToCart full_db 9 30 1 = (ServerError, full_db)"
    using av cb by (simp add: addToCart_def)
  from capacity_check_written_out[of full_cart 9 1 full_db 30 scenario_property] h1 h2 h3 h4 h5
  have r: "route_cart_add full_db 9 30 1 = (Rejected 400 ''Cart limit reached'', full_db)"
    and m: "addItem full_cart 9 1 = (Some ''Cart limit reached'', full_cart)"
    by (simp_all add: prod_eq_iff)
  have b: "fst (addToCart scenario_db 9 30 1) = ServerError"
    "fst (route_cart_add scenario_db 9 30 1) = Success"
    by code_simp+
  from h1 h2 c r m b show ?thesis by blast
qed

text \<open>
  C1. Of two reserve requests for the same free, live property, issued by two buyers at
  once, exactly one was claimed to succeed and the other to be turned away, the test of
  the lock and its setting being one atomic conditional update.

  The route \<^verbatim>\<open>/api/cart/add\<close> reads the property with \<^verbatim>\<open>findById\<close>, tests
  \<^verbatim>\<open>in_cart\<close> and writes the lock later, with \<^verbatim>\<open>property.save()\<close>. When both requests
  have read before either writes, both succeed: each buyer's cart holds an active item of
  property 1, and the lock names the buyer who wrote last.
\<close>

theorem reserve_race_both_succeed:
  "fst (route_cart_add_interleaved scenario_db 0 30 31 1) = (Success, Success)
   \<and> map buyer (carts (snd (route_cart_add_interleaved scenario_db 0 30 31 1))) = [30, 31]
   \<and> map (map property \<circ> items) (carts (snd (route_cart_add_interleaved scenario_db 0 30 31 1)))
       = [[1], [1]]
   \<and> map (map status \<circ> items) (carts (snd (route_cart_add_interleaved scenario_db 0 30 31 1)))
       = [[Active], [Active]]
   \<and> map_option (buyer_id \<circ> p_cart_status)
        (properties (snd (route_cart_add_interleaved scenario_db 0 30 31 1)) 1) = Some (Some 31)"
  by code_simp

text \<open>
  C1, as the code has it. The test of the lock and its setting are a read and a later
  write. When two requests to \<^verbatim>\<open>/api/cart/add\<close> for a free, live property are handled
  one after the other, the first succeeds (its buyer having room in the cart and no
  active item of the property) and the second, whoever sends it, is turned away with
  status 400 and the message that the property is in another buyer's cart, the state
  unchanged.
\<close>

theorem reserve_sequential:
  assumes "properties s propertyId = Some p"
    and "p_status p = Live" and "\<not> in_cart (p_cart_status p)"
    and "case findCart s userA of
           None \<Rightarrow> True
         | Some c \<Rightarrow> activeItems c < max_properties (settings c)
                     \<and> \<not> list_ex (active_for propertyId) (items c)"
  shows "fst (route_cart_add s now userA propertyId) = Success
       \<and> route_cart_add (snd (route_cart_add s now userA propertyId)) now' userB propertyId
           = (Rejected 400 in_another_cart_message,
              snd (route_cart_add s now userA propertyId))"
proof -
  let ?r = "route_cart_add s now userA propertyId"
  have ok: "fst ?r = Success"
    using assms
    by (auto simp: route_cart_add_eq Let_def activeItems_def split: option.splits)
  have "properties (snd ?r) propertyId = Some (p\<lparr> p_cart_status := locked_by userA now \<rparr>)"
    using assms
    by (auto simp: route_cart_add_eq Let_def activeItems_def updateLock_def split: option.splits)
  then have "route_cart_add (snd ?r) now' userB propertyId
              = (Rejected 400 in_another_cart_message, snd ?r)"
    by (simp add: route_cart_add_eq [of "snd ?r"] locked_by_def)
  with ok show ?thesis by simp
qed

theorem reserve_sequential_witness:
  "properties scenario_db 1 = Some scenario_property
   \<and> p_status scenario_property = Live \<and> \<not> in_cart (p_cart_status scenario_property)
   \<and> findCart scenario_db 30 = None
   \<and> fst (route_cart_add scenario_db 0 30 1) = Success
   \<and> fst (route_cart_add (snd (route_cart_add scenario_db 0 30 1)) 5 31 1)
       = Rejected 400 in_another_cart_message
   \<and> snd (route_cart_add (snd (route_cart_add scenario_db 0 30 1)) 5 31 1)
       = snd (route_cart_add scenario_db 0 30 1)"
proof -
  have h1: "properties scenario_db 1 = Some scenario_property" by (simp add: scenario_db_def)
  have h2: "p_status scenario_property = Live" by (simp add: scenario_property_def)
  have h3: "\<not> in_cart (p_cart_status scenario_property)"
    by (simp add: scenario_property_def unlocked_def)
  have h4: "findCart scenario_db 30 = None" by code_simp
  from reserve_sequential[OF h1 h2 h3, of 30 0 5 31] h4
  have "fst (route_cart_add scenario_db 0 30 1) = Success"
    and "route_cart_add (snd (route_cart_add scenario_db 0 30 1)) 5 31 1
           = (Rejected 400 in_another_cart_message, snd (route_cart_add scenario_db 0 30 1))"
    by simp_all
  with h1 h2 h3 h4 show ?thesis by simp
qed

section \<open>Confirmation of a visit\<close>

text \<open>
  C4. A visit confirmed at time \<open>t\<close> within the visit window is to set
  \<open>visit_status = confirmed\<close>, \<open>visit_confirmed_at = t\<close>, \<open>booking_window_start = t\<close> and
  \<open>booking_window_end = t + booking_window_days\<close>, the configured length of the booking
  window with 60 days as its default, mirrored onto the lock of the property; the
  booking window is to be set at confirmation only, never when the property is added to
  the cart.

  In \<open>ruled_reserved_db\<close> the rule provider configures 30 days and the cart of buyer 30
  carries that setting; the reservation made through \<^verbatim>\<open>/api/cart/add\<close> has no booking
  window yet. The broker route confirms the visit at day 3 and answers success. It sets
  the status, the time of confirmation and the start of the window and mirrors them, but
  it computes the end with the literal 60: the window ends at day 63 on the item and on
  the lock, not at day 33. The cart method \<open>cart_confirmVisit\<close> computes the end from the
  setting, day 33. The two controllers never assign \<open>booking_window_end\<close>: after
  \<open>buyer_confirmVisit\<close> at day 3 the stored item is confirmed and has no end of the
  window at all.
\<close>

theorem route_confirm_ignores_configured_window:
  "fst (addToCart ruled_db 0 30 1) = ServerError
   \<and> fst (route_cart_add (snd (addToCart ruled_db 0 30 1)) 0 30 1) = Success
   \<and> map (booking_window_days \<circ> settings) (carts ruled_reserved_db) = [30]
   \<and> map (map booking_window_start \<circ> items) (carts ruled_reserved_db) = [[None]]
   \<and> map (map booking_window_end \<circ> items) (carts ruled_reserved_db) = [[None]]
   \<and> fst (route_visit_confirm ruled_reserved_db (3 * day_ms) 20 1 ''manual'' None) = Success
   \<and> map (map visit_status \<circ> items)
        (carts (snd (route_visit_confirm ruled_reserved_db (3 * day_ms) 20 1 ''manual'' None)))
     = [[Confirmed]]
   \<and> map (map visit_confirmed_at \<circ> items)
        (carts (snd (route_visit_confirm ruled_reserved_db (3 * day_ms) 20 1 ''manual'' None)))
     = [[Some (3 * day_ms)]]
   \<and> map (map booking_window_start \<circ> items)
        (carts (snd (route_visit_confirm ruled_reserved_db (3 * day_ms) 20 1 ''manual'' None)))
     = [[Some (3 * day_ms)]]
   \<and> map (map booking_window_end \<circ> items)
        (carts (snd (route_visit_confirm ruled_reserved_db (3 * day_ms) 20 1 ''manual'' None)))
     = [[Some (63 * day_ms)]]
   \<and> map_option (cs_booking_window_end \<circ> p_cart_status)
        (properties (snd (route_visit_confirm ruled_reserved_db (3 * day_ms) 20 1 ''manual'' None)) 1)
     = Some (Some (63 * day_ms))
   \<and> map (\<lambda>c. map booking_window_end (items (snd (cart_confirmVisit c (3 * day_ms) 1 20 ''manual''))))
        (carts ruled_reserved_db)
     = [[Some (33 * day_ms)]]
   \<and> map (map visit_status \<circ> items)
        (carts (snd (buyer_confirmVisit ruled_reserved_db (3 * day_ms) 30 1)))
     = [[Confirmed]]
   \<and> map (map booking_window_end \<circ> items)
        (carts (snd (buyer_confirmVisit ruled_reserved_db (3 * day_ms) 30 1)))
     = [[None]]"
  by code_simp

theorem route_confirm_ignores_configured_window_witness:
  "fst (route_visit_confirm ruled_reserved_db (3 * day_ms) 20 1 ''manual'' None) = Success
   \<and> map (map booking_window_end \<circ> items)
        (carts (snd (route_visit_confirm ruled_reserved_db (3 * day_ms) 20 1 ''manual'' None)))
     \<noteq> map (\<lambda>c. map booking_window_end (items (snd (cart_confirmVisit c (3 * day_ms) 1 20 ''manual''))))
          (carts ruled_reserved_db)"
  using route_confirm_ignores_configured_window
  by (simp add: day_ms_def)

text \<open>
  C3. A confirmation attempted after the visit window of an active, unconfirmed
  reservation has elapsed was claimed to fail with the window error and, in the same
  call, to expire the item and to clear the lock of the property.

  On \<open>reserved_db\<close> at day 8 the buyer's handler answers the window error and changes
  nothing: the item is still active and the property is still locked.
\<close>

theorem confirmVisit_after_window_no_release:
  "fst (buyer_confirmVisit reserved_db (8 * day_ms) 30 1) = Rejected 400 ''Visit window has expired''
   \<and> map (map status \<circ> items) (carts (snd (buyer_confirmVisit reserved_db (8 * day_ms) 30 1)))
     = [[Active]]
   \<and> map_option (in_cart \<circ> p_cart_status)
        (properties (snd (buyer_confirmVisit reserved_db (8 * day_ms) 30 1)) 1) = Some True"
  by code_simp

text \<open>
  C3, as the code has it. For an active reservation whose visit is not confirmed and
  whose visit window has elapsed, a confirmation fails with
  \<^verbatim>\<open>'Visit window has expired'\<close> in the buyer's handler and in the cart method alike,
  and the visit is not confirmed. The handler leaves the whole state as it was, the
  item and the lock included; the cart method marks the item it found as expired
  (status and visit status) and has no access to the property. Neither clears the
  lock.
\<close>

theorem confirmVisit_after_window:
  assumes "findCart s userId = Some c"
    and "find (active_for propertyId) (items c) = Some item"
    and "visit_status item \<noteq> Confirmed"
    and "now > added_at item + visit_window_days (settings c) * day_ms"
  shows "fst (buyer_confirmVisit s now userId propertyId) = Rejected 400 ''Visit window has expired''
    \<and> snd (buyer_confirmVisit s now userId propertyId) = s
    \<and> fst (cart_confirmVisit c now propertyId confirmedBy method) = Some ''Visit window has expired''
    \<and> (\<exists>pre post. items c = pre @ item # post
          \<and> items (snd (cart_confirmVisit c now propertyId confirmedBy method))
              = pre @ item\<lparr> visit_status := VisitExpired, status := Expired \<rparr> # post)"
proof -
  have a: "fst (buyer_confirmVisit s now userId propertyId)
             = Rejected 400 ''Visit window has expired''"
    and b: "snd (buyer_confirmVisit s now userId propertyId) = s"
    using assms by (simp_all add: buyer_confirmVisit_def)
  have c: "fst (cart_confirmVisit c now propertyId confirmedBy method)
             = Some ''Visit window has expired''"
    using assms by (simp add: cart_confirmVisit_def)
  have d: "items (snd (cart_confirmVisit c now propertyId confirmedBy method))
      = update_first (active_for propertyId)
          (\<lambda>item. item\<lparr> visit_status := VisitExpired, status := Expired \<rparr>) (items c)"
    using assms by (simp add: cart_confirmVisit_def pre_save_def)
  from find_update_first[OF assms(2),
      of "\<lambda>item. item\<lparr> visit_status := VisitExpired, status := Expired \<rparr>"] d
  have "\<exists>pre post. items c = pre @ item # post
          \<and> items (snd (cart_confirmVisit c now propertyId confirmedBy method))
              = pre @ item\<lparr> visit_status := VisitExpired, status := Expired \<rparr> # post"
    by auto
  with a b c show ?thesis by blast
qed

theorem confirmVisit_after_window_witness:
  "findCart reserved_db 30 = Some (hd (carts reserved_db))
   \<and> find (active_for 1) (items (hd (carts reserved_db))) = Some (new_item 1 0)
   \<and> visit_status (new_item 1 0) \<noteq> Confirmed
   \<and> 8 * day_ms > added_at (new_item 1 0)
                     + visit_window_days (settings (hd (carts reserved_db))) * day_ms
   \<and> fst (buyer_confirmVisit reserved_db (8 * day_ms) 30 1)
       = Rejected 400 ''Visit window has expired''
   \<and> snd (buyer_confirmVisit reserved_db (8 * day_ms) 30 1) = reserved_db
   \<and> fst (cart_confirmVisit (hd (carts reserved_db)) (8 * day_ms) 1 30 ''manual'')
       = Some ''Visit window has expired''
   \<and> map status (items (snd (cart_confirmVisit (hd (carts reserved_db)) (8 * day_ms) 1 30 ''manual'')))
       = [Expired]"
proof -
  have h1: "findCart reserved_db 30 = Some (hd (carts reserved_db))" by code_simp
  have h2: "find (active_for 1) (items (hd (carts reserved_db))) = Some (new_item 1 0)"
    by code_simp
  have h3: "visit_status (new_item 1 0) \<noteq> Confirmed" by code_simp
  have h4: "8 * day_ms > added_at (new_item 1 0)
                           + visit_window_days (settings (hd (carts reserved_db))) * day_ms"
    by code_simp
  have h5: "map status
              (items (snd (cart_confirmVisit (hd (carts reserved_db)) (8 * day_ms) 1 30 ''manual'')))
            = [Expired]"
    by code_simp
  from confirmVisit_after_window[OF h1 h2 h3 h4, of 30 "''manual''"] h1 h2 h3 h4 h5
  show ?thesis by blast
qed

text \<open>
  C7. Across any number of repeated confirmations of the visit of one reservation at
  most one seller-type commission is to be created; a confirmation of a visit that is
  already confirmed is to fail and to create none.

  \<open>broker_confirmVisit\<close> does not look at \<open>visit_status\<close>: it accepts every active item.
  Called twice on the reservation of \<open>reserved_db\<close> by the assigned broker 20, who did not
  list the property, it stores two seller-type commissions. The cart method
  \<open>cart_confirmVisit\<close> has the guard: on the cart as it is after the first call it
  throws \<^verbatim>\<open>'Visit already confirmed'\<close>.
\<close>

theorem broker_confirmVisit_twice_two_commissions:
  "commissions reserved_db = []
   \<and> map c_commission_type
        (commissions (snd (broker_confirmVisit reserved_db (3 * day_ms) 20 1 30 (Some ''manual''))))
     = [''seller'']
   \<and> map c_commission_type
        (commissions
           (snd (broker_confirmVisit
                   (snd (broker_confirmVisit reserved_db (3 * day_ms) 20 1 30 (Some ''manual'')))
                   (4 * day_ms) 20 1 30 (Some ''manual''))))
     = [''seller'', ''seller'']
   \<and> map (\<lambda>c. fst (cart_confirmVisit c (4 * day_ms) 1 20 ''manual''))
        (carts (snd (broker_confirmVisit reserved_db (3 * day_ms) 20 1 30 (Some ''manual''))))
     = [Some ''Visit already confirmed'']"
  by code_simp

section \<open>The commission of the confirming broker\<close>

text \<open>
  C8. The seller-type commission recorded when a broker who did not list the property
  confirms the visit was claimed to be \<open>price * seller_rate / 100\<close> with the rate
  falling back to 1 (adder) and 2 (seller) when no active rule is found, so that a
  property of 10,00,000 without a rule yields 20,000.

  The broker route takes its rates from the property and falls back to the defaults of
  \<open>calculateCommission\<close>, 1.5 and 2.5, without any rule lookup: on \<open>reserved_db\<close>, which
  has no rule, it records 25,000 at 2.5 percent.
\<close>

theorem seller_commission_rate_counterexample:
  "rules reserved_db = []
   \<and> map c_commission_type
        (commissions (snd (route_visit_confirm reserved_db (3 * day_ms) 20 1 ''manual'' None)))
     = [''seller'']
   \<and> map c_rate
        (commissions (snd (route_visit_confirm reserved_db (3 * day_ms) 20 1 ''manual'' None)))
     = [5 / 2]
   \<and> map c_amount
        (commissions (snd (route_visit_confirm reserved_db (3 * day_ms) 20 1 ''manual'' None)))
     = [25000]"
  by code_simp

text \<open>
  C8, as the code has it. When the assigned broker, who is not the one who listed the
  property, confirms the visit, one seller-type commission with amount
  \<open>price * rate / 100\<close>, computed with the operators of Numbers, is appended. In
  \<open>broker_confirmVisit\<close> the rate is the value of the
  active \<^verbatim>\<open>commission_seller\<close> rule, or 2 when there is none (or its value is zero). In
  the broker route the rate is the property's own \<^verbatim>\<open>commission.seller_rate\<close>, or 2.5
  when that is zero. The schema of the commission requires the price and the rate to be
  non-negative and the rate to be at most 100.
\<close>

theorem seller_commission_amount:
  assumes "properties s propertyId = Some p"
    and "p_broker p = Some userId"
    and "added_by_user p \<noteq> userId"
    and "0 \<le> p_price p"
    and "find (active_for propertyId) (items c) = Some item"
  shows "(findCart s buyerId = Some c
          \<and> (case confirmationMethod of None \<Rightarrow> True | Some m \<Rightarrow> m \<in> set [''otp'', ''qr'', ''manual''])
          \<and> r = of_int (value_or (getRule (rules s) ''commission_seller'') 2)
          \<and> 0 \<le> r \<and> r \<le> 100
          \<longrightarrow> commissions (snd (broker_confirmVisit s now userId propertyId buyerId confirmationMethod))
              = commissions s @ [\<lparr> c_broker = userId, c_property = propertyId,
                                   c_property_price = p_price p, c_commission_type = ''seller'',
                                   c_rate = r, c_amount = js_div (js_mul (p_price p) r) 100,
                                   c_status = ''pending'' \<rparr>])
       \<and> (find (\<lambda>c. list_ex (\<lambda>item. property item = propertyId) (items c)
                     \<and> list_ex (\<lambda>item. status item = Active) (items c)) (carts s) = Some c
          \<and> now \<le> added_at item + 7 * day_ms
          \<and> methodArg \<in> set [''otp'', ''qr'', ''manual'', ''scheduled'']
          \<and> r' = rate_or (commission_seller_rate p) (5 / 2)
          \<and> 0 \<le> r' \<and> r' \<le> 100
          \<longrightarrow> commissions (snd (route_visit_confirm s now userId propertyId methodArg reqNotes))
              = commissions s @ [\<lparr> c_broker = userId, c_property = propertyId,
                                   c_property_price = p_price p, c_commission_type = ''seller'',
                                   c_rate = r', c_amount = js_div (js_mul (p_price p) r') 100,
                                   c_status = ''pending'' \<rparr>])
       \<and> value_or None 2 = 2 \<and> rate_or 0 (5 / 2) = 5 / 2"
proof -
  have v: "value_or None 2 = 2 \<and> rate_or 0 (5 / 2) = 5 / 2"
    by (simp add: value_or_def rate_or_def)
  have a: "commissions (snd (broker_confirmVisit s now userId propertyId buyerId confirmationMethod))
              = commissions s @ [\<lparr> c_broker = userId, c_property = propertyId,
                                   c_property_price = p_price p, c_commission_type = ''seller'',
                                   c_rate = r, c_amount = js_div (js_mul (p_price p) r) 100,
                                   c_status = ''pending'' \<rparr>]"
    if "findCart s buyerId = Some c"
      and "case confirmationMethod of None \<Rightarrow> True | Some m \<Rightarrow> m \<in> set [''otp'', ''qr'', ''manual'']"
      and "r = of_int (value_or (getRule (rules s) ''commission_seller'') 2)"
      and "0 \<le> r" "r \<le> 100"
  proof -
    have m: "\<not> (case confirmationMethod of None \<Rightarrow> False | Some m \<Rightarrow> m \<notin> set [''otp'', ''qr'', ''manual''])"
      using that(2) by (cases confirmationMethod) auto
    have amt: "0 \<le> js_div (js_mul (p_price p) r) 100"
      using assms(4) that(4) by (simp add: js_div_def js_mul_def js_round_nonneg)
    show ?thesis
      using assms that(1,3,4,5) m amt
      by (simp add: broker_confirmVisit_def Let_def createCommission_def del: set_simps list.set notify_all.simps)
  qed
  have b: "commissions (snd (route_visit_confirm s now userId propertyId methodArg reqNotes))
              = commissions s @ [\<lparr> c_broker = userId, c_property = propertyId,
                                   c_property_price = p_price p, c_commission_type = ''seller'',
                                   c_rate = r', c_amount = js_div (js_mul (p_price p) r') 100,
                                   c_status = ''pending'' \<rparr>]"
    if "find (\<lambda>c. list_ex (\<lambda>item. property item = propertyId) (items c)
                     \<and> list_ex (\<lambda>item. status item = Active) (items c)) (carts s) = Some c"
      and "now \<le> added_at item + 7 * day_ms"
      and "methodArg \<in> set [''otp'', ''qr'', ''manual'', ''scheduled'']"
      and "r' = rate_or (commission_seller_rate p) (5 / 2)"
      and "0 \<le> r'" "r' \<le> 100"
  proof -
    have amt: "0 \<le> js_div (js_mul (p_price p) r') 100"
      using assms(4) that(5) by (simp add: js_div_def js_mul_def js_round_nonneg)
    show ?thesis
      using assms that amt
      by (simp add: route_visit_confirm_def Let_def createCommission_def calculateCommission_def
               del: set_simps list.set)
  qed
  from a b v show ?thesis by blast
qed

theorem seller_commission_amount_witness:
  "properties reserved_db 1 = Some (scenario_property\<lparr> p_cart_status := locked_by 30 0 \<rparr>)
   \<and> p_broker (scenario_property\<lparr> p_cart_status := locked_by 30 0 \<rparr>) = Some 20
   \<and> added_by_user (scenario_property\<lparr> p_cart_status := locked_by 30 0 \<rparr>) \<noteq> 20
   \<and> 0 \<le> p_price (scenario_property\<lparr> p_cart_status := locked_by 30 0 \<rparr>)
   \<and> find (active_for 1) (items (hd (carts reserved_db))) = Some (new_item 1 0)
   \<and> findCart reserved_db 30 = Some (hd (carts reserved_db))
   \<and> getRule (rules reserved_db) ''commission_seller'' = None
   \<and> commission_seller_rate (scenario_property\<lparr> p_cart_status := locked_by 30 0 \<rparr>) = 0
   \<and> 3 * day_ms \<le> added_at (new_item 1 0) + 7 * day_ms
   \<and> commissions (snd (broker_confirmVisit reserved_db (3 * day_ms) 20 1 30 (Some ''manual'')))
       = [\<lparr> c_broker = 20, c_property = 1, c_property_price = 1000000,
            c_commission_type = ''seller'', c_rate = 2, c_amount = 20000,
            c_status = ''pending'' \<rparr>]
   \<and> commissions (snd (route_visit_confirm reserved_db (3 * day_ms) 20 1 ''manual'' None))
       = [\<lparr> c_broker = 20, c_property = 1, c_property_price = 1000000,
            c_commission_type = ''seller'', c_rate = 5 / 2, c_amount = 25000,
            c_status = ''pending'' \<rparr>]"
proof -
  let ?p = "scenario_property\<lparr> p_cart_status := locked_by 30 0 \<rparr>"
  let ?c = "hd (carts reserved_db)"
  have h1: "properties reserved_db 1 = Some ?p" by (simp add: reserved_db_def)
  have h2: "p_broker ?p = Some 20" by (simp add: scenario_property_def)
  have h3: "added_by_user ?p \<noteq> 20" by (simp add: scenario_property_def)
  have h4: "0 \<le> p_price ?p" by (simp add: scenario_property_def)
  have h5: "find (active_for 1) (items ?c) = Some (new_item 1 0)" by code_simp
  have h6: "findCart reserved_db 30 = Some ?c" by code_simp
  have h7: "getRule (rules reserved_db) ''commission_seller'' = None" by code_simp
  have h8: "commission_seller_rate ?p = 0" by (simp add: scenario_property_def)
  have h9: "3 * day_ms \<le> added_at (new_item 1 0) + 7 * day_ms" by code_simp
  have h10: "find (\<lambda>c. list_ex (\<lambda>item. property item = 1) (items c)
                     \<and> list_ex (\<lambda>item. status item = Active) (items c)) (carts reserved_db) = Some ?c"
    by code_simp
  have pr: "p_price ?p = 1000000" by (simp add: scenario_property_def)
  have cs: "commissions reserved_db = []" by (simp add: reserved_db_def)
  have e1: "js_div (js_mul 1000000 2) 100 = 20000" by code_simp
  have e2: "js_div (js_mul 1000000 (5 / 2)) 100 = 25000" by code_simp
  note t = seller_commission_amount[OF h1 h2 h3 h4 h5,
      where buyerId = 30 and confirmationMethod = "Some ''manual''" and r = 2
        and now = "3 * day_ms" and methodArg = "''manual''" and r' = "5 / 2" and reqNotes = None]
  have a: "commissions (snd (broker_confirmVisit reserved_db (3 * day_ms) 20 1 30 (Some ''manual'')))
       = [\<lparr> c_broker = 20, c_property = 1, c_property_price = 1000000,
            c_commission_type = ''seller'', c_rate = 2, c_amount = 20000,
            c_status = ''pending'' \<rparr>]"
    using t h6 h7 pr cs e1 by (simp add: value_or_def)
  have b: "commissions (snd (route_visit_confirm reserved_db (3 * day_ms) 20 1 ''manual'' None))
       = [\<lparr> c_broker = 20, c_property = 1, c_property_price = 1000000,
            c_commission_type = ''seller'', c_rate = 5 / 2, c_amount = 25000,
            c_status = ''pending'' \<rparr>]"
    using t h10 h9 h8 pr cs e2 by (simp add: rate_or_def)
  from h1 h2 h3 h4 h5 h6 h7 h8 h9 a b show ?thesis by blast
qed
section \<open>The lock and the reservation\<close>

text \<open>
  C5. The lock flag \<open>in_cart\<close> of a property is to be true exactly when one active
  reservation item references the property, and every transition, the sweep included,
  is to update the item and the lock together (Scenario A: after the sweep of an
  unconfirmed reservation that is 8 days old the item is expired and the lock is free).

  \<open>simple_cleanupExpiredItems\<close> writes properties only. Run on \<open>reserved_db\<close> at day 8 it
  frees the lock of property 1 and leaves the item of buyer 30 active. The other
  sweeper, \<open>cart_cleanupExpiredItems\<close>, does update both in that scenario, but it frees
  no lock after the booking window: for the reservation of \<open>confirmed_db\<close>, confirmed at
  day 3 and swept at day 64, the item is expired and the lock is still held.
\<close>

theorem sweep_leaves_lock_and_item_apart:
  "map_option (in_cart \<circ> p_cart_status)
     (properties (simple_cleanupExpiredItems reserved_db (8 * day_ms)) 1) = Some False
   \<and> map (map status \<circ> items) (carts (simple_cleanupExpiredItems reserved_db (8 * day_ms)))
     = [[Active]]
   \<and> map_option (in_cart \<circ> p_cart_status)
        (properties (cart_cleanupExpiredItems reserved_db (8 * day_ms)) 1) = Some False
   \<and> map (map status \<circ> items) (carts (cart_cleanupExpiredItems reserved_db (8 * day_ms)))
     = [[Expired]]
   \<and> map_option (in_cart \<circ> p_cart_status)
        (properties (cart_cleanupExpiredItems confirmed_db (64 * day_ms)) 1) = Some True
   \<and> map (map status \<circ> items)
        (carts (cart_cleanupExpiredItems confirmed_db (64 * day_ms)))
     = [[Expired]]"
  by code_simp

section \<open>Release\<close>

text \<open>
  C6. Release was claimed to be idempotent: a second release of the same reservation
  leaves the state of the first and is a no-op, not an error, with no second unlock
  event.

  The second removal is an error. In \<open>reserved_db\<close> the first \<open>removeFromCart\<close> of buyer
  30 succeeds and the second is answered with status 404; the cart method
  \<open>removeItem\<close> throws on the second call.
\<close>

theorem release_twice_rejected:
  "fst (removeFromCart reserved_db 5 30 1) = Success
   \<and> fst (removeFromCart (snd (removeFromCart reserved_db 5 30 1)) 6 30 1)
       = Rejected 404 ''Item not found in cart''
   \<and> fst (removeItem (hd (carts reserved_db)) 5 1) = None
   \<and> fst (removeItem (snd (removeItem (hd (carts reserved_db)) 5 1)) 6 1)
       = Some ''Property not found in cart''"
  by code_simp

text \<open>
  C6, as the code has it. Take a reservation that is the only active item of its
  property in the buyer's cart. The first removal succeeds; the second removal is
  rejected with a not-found error (status 404 from the controller, 400 from the route,
  a thrown \<^verbatim>\<open>Error\<close> from the cart method) and returns the state of the first
  unchanged, so no second \<^verbatim>\<open>property_unlock\<close> notification is stored. The expiry is
  idempotent without an error: a second \<open>checkExpiredItems\<close> at the same time reports no
  update and returns the cart as it is, and a second run of the sweeper returns the
  state of the first.
\<close>

theorem release_twice:
  assumes "findCart s userId = Some c"
    and "list_ex (active_for propertyId) (items c)"
    and "length (filter (active_for propertyId) (items c)) \<le> 1"
  shows "fst (removeFromCart s now userId propertyId) = Success
    \<and> removeFromCart (snd (removeFromCart s now userId propertyId)) now' userId propertyId
        = (Rejected 404 ''Item not found in cart'', snd (removeFromCart s now userId propertyId))
    \<and> fst (route_cart_remove s now userId propertyId) = Success
    \<and> route_cart_remove (snd (route_cart_remove s now userId propertyId)) now' userId propertyId
        = (Rejected 400 ''Property not found in cart'', snd (route_cart_remove s now userId propertyId))
    \<and> fst (removeItem c now propertyId) = None
    \<and> removeItem (snd (removeItem c now propertyId)) now' propertyId
        = (Some ''Property not found in cart'', snd (removeItem c now propertyId))
    \<and> checkExpiredItems (snd (checkExpiredItems c t)) t = (False, snd (checkExpiredItems c t))
    \<and> simple_cleanupExpiredItems (simple_cleanupExpiredItems s t) t
        = simple_cleanupExpiredItems s t"
proof -
  let ?P = "active_for propertyId"
  let ?gone = "c\<lparr> items := remove_first ?P (items c) \<rparr>"
  let ?marked = "c\<lparr> items := update_first ?P (\<lambda>item. item\<lparr> status := Removed \<rparr>) (items c) \<rparr>"
  have b: "buyer c = userId" using assms(1) by (rule findCart_buyer)
  have no_gone: "\<not> list_ex ?P (items (pre_save now ?gone))"
    using remove_first_none[OF assms(3)] by (simp add: pre_save_def)
  have no_marked: "\<not> list_ex ?P (items (pre_save now ?marked))"
    using update_first_none[OF assms(3), of "\<lambda>item. item\<lparr> status := Removed \<rparr>"]
    by (simp add: pre_save_def active_for_def)
  \<comment> \<open>the controller\<close>
  have c1: "fst (removeFromCart s now userId propertyId) = Success"
    using assms(1,2) notify_all_unlock
    by (simp add: removeFromCart_def Let_def answer_after_def del: notify_all.simps
          split: option.splits)
  have "carts (snd (removeFromCart s now userId propertyId)) = carts (saveCart s now ?gone)"
    using assms(1,2)
    by (simp add: removeFromCart_def Let_def del: notify_all.simps split: option.splits)
  then have "findCart (snd (removeFromCart s now userId propertyId)) userId
               = findCart (saveCart s now ?gone) userId"
    by (rule findCart_carts)
  also have "\<dots> = Some (pre_save now ?gone)"
    using findCart_saveCart[OF assms(1), of ?gone now] b by simp
  finally have c2: "removeFromCart (snd (removeFromCart s now userId propertyId)) now' userId propertyId
        = (Rejected 404 ''Item not found in cart'', snd (removeFromCart s now userId propertyId))"
    using no_gone by (simp add: removeFromCart_def [of "snd (removeFromCart s now userId propertyId)"])
  \<comment> \<open>the route\<close>
  have r1: "fst (route_cart_remove s now userId propertyId) = Success"
    using assms(1,2) by (simp add: route_cart_remove_def Let_def)
  have "carts (snd (route_cart_remove s now userId propertyId)) = carts (saveCart s now ?marked)"
    using assms(1,2) by (simp add: route_cart_remove_def Let_def)
  then have "findCart (snd (route_cart_remove s now userId propertyId)) userId
               = findCart (saveCart s now ?marked) userId"
    by (rule findCart_carts)
  also have "\<dots> = Some (pre_save now ?marked)"
    using findCart_saveCart[OF assms(1), of ?marked now] b by simp
  finally have r2: "route_cart_remove (snd (route_cart_remove s now userId propertyId)) now' userId propertyId
        = (Rejected 400 ''Property not found in cart'', snd (route_cart_remove s now userId propertyId))"
    using no_marked
    by (simp add: route_cart_remove_def [of "snd (route_cart_remove s now userId propertyId)"])
  \<comment> \<open>the cart method\<close>
  have m1: "fst (removeItem c now propertyId) = None"
    using assms(2) by (simp add: removeItem_def)
  have "snd (removeItem c now propertyId) = pre_save now ?marked"
    using assms(2) by (simp add: removeItem_def)
  then have m2: "removeItem (snd (removeItem c now propertyId)) now' propertyId
        = (Some ''Property not found in cart'', snd (removeItem c now propertyId))"
    using no_marked by (simp add: removeItem_def [of "pre_save now ?marked"])
  from c1 c2 r1 r2 m1 m2 checkExpiredItems_again simple_cleanup_again
  show ?thesis by blast
qed

theorem release_twice_witness:
  "findCart reserved_db 30 = Some (hd (carts reserved_db))
   \<and> list_ex (active_for 1) (items (hd (carts reserved_db)))
   \<and> length (filter (active_for 1) (items (hd (carts reserved_db)))) \<le> 1
   \<and> fst (removeFromCart reserved_db 5 30 1) = Success
   \<and> removeFromCart (snd (removeFromCart reserved_db 5 30 1)) 6 30 1
        = (Rejected 404 ''Item not found in cart'', snd (removeFromCart reserved_db 5 30 1))
   \<and> notifications (snd (removeFromCart (snd (removeFromCart reserved_db 5 30 1)) 6 30 1))
        = [\<lparr> n_user = 10, n_type = ''property_unlock'', n_property = 1 \<rparr>]
   \<and> checkExpiredItems (snd (checkExpiredItems (hd (carts reserved_db)) (8 * day_ms))) (8 * day_ms)
        = (False, snd (checkExpiredItems (hd (carts reserved_db)) (8 * day_ms)))"
proof -
  have h1: "findCart reserved_db 30 = Some (hd (carts reserved_db))" by code_simp
  have h2: "list_ex (active_for 1) (items (hd (carts reserved_db)))" by code_simp
  have h3: "length (filter (active_for 1) (items (hd (carts reserved_db)))) \<le> 1" by code_simp
  have n: "notifications (snd (removeFromCart reserved_db 5 30 1))
        = [\<lparr> n_user = 10, n_type = ''property_unlock'', n_property = 1 \<rparr>]" by code_simp
  from release_twice[OF h1 h2 h3, of 5 6 "8 * day_ms"] h1 h2 h3 n
  show ?thesis by simp
qed

section \<open>Terminal statuses\<close>

text \<open>
  C9. Every status other than active was claimed to be terminal, and a reservation whose
  governing window has elapsed was claimed to reach expired states only.

  The second part does not hold. On \<open>reserved_db\<close> at day 8, one day after the visit
  window, \<open>broker_confirmVisit\<close> still confirms the visit and the reservation stays
  active with a confirmed visit; an explicit removal through the route takes it to
  removed, not to expired.
\<close>

theorem window_elapsed_not_only_expired:
  "map (map status \<circ> items)
     (carts (snd (broker_confirmVisit reserved_db (8 * day_ms) 20 1 30 (Some ''manual''))))
     = [[Active]]
   \<and> map (map visit_status \<circ> items)
        (carts (snd (broker_confirmVisit reserved_db (8 * day_ms) 20 1 30 (Some ''manual''))))
     = [[Confirmed]]
   \<and> map (map status \<circ> items) (carts (snd (route_cart_remove reserved_db (8 * day_ms) 30 1)))
     = [[Removed]]"
  by code_simp

text \<open>
  C9, as the code has it. Every status other than active is terminal: whatever sequence
  of requests the engine serves (add to cart, remove, confirmation by the buyer or the
  broker, either sweeper), and whichever cart method is called, the reservations that are
  not active stay in their cart unchanged, so a reservation that has expired or was
  removed is never active again. A pending reservation whose visit window has elapsed is
  set to expired by the pass of \<open>checkExpiredItems\<close>. The store is taken with one cart for
  each buyer, as the unique index on \<^verbatim>\<open>buyer\<close> demands.
\<close>

theorem terminal_statuses_stay:
  assumes "distinct (map buyer (carts s))"
  shows "terminal_kept s (run s rs)
    \<and> subseq (terminal_items c) (terminal_items (snd (addItem c now p)))
    \<and> subseq (terminal_items c) (terminal_items (snd (removeItem c now p)))
    \<and> subseq (terminal_items c) (terminal_items (snd (cart_confirmVisit c now p u m)))
    \<and> subseq (terminal_items c) (terminal_items (snd (checkExpiredItems c now)))
    \<and> (\<forall>i < length (items c).
          status (items c ! i) = Active \<and> visit_status (items c ! i) = Pending
          \<and> now - added_at (items c ! i) > visit_window_days (settings c) * day_ms
          \<longrightarrow> status (items (snd (checkExpiredItems c now)) ! i) = Expired)"
proof -
  from kept_step_run[of s rs] assms have "terminal_kept s (run s rs)" by (simp add: kept_step_def)
  with terminal_method_results(1)[of c now p] terminal_method_results(2)[of c now p]
    terminal_method_results(3)[of c now p u m] terminal_checked[of c now]
    checkExpiredItems_due[of _ c now]
  show ?thesis by blast
qed

theorem terminal_statuses_stay_witness:
  "distinct (map buyer (carts (cart_cleanupExpiredItems reserved_db (8 * day_ms))))
   \<and> map (map status \<circ> items) (carts (cart_cleanupExpiredItems reserved_db (8 * day_ms)))
       = [[Expired]]
   \<and> terminal_kept (cart_cleanupExpiredItems reserved_db (8 * day_ms))
        (run (cart_cleanupExpiredItems reserved_db (8 * day_ms))
           [(9 * day_ms, RouteCartAdd 30 1),
            (10 * day_ms, BrokerConfirmVisit 20 1 30 (Some ''manual'')),
            (11 * day_ms, RouteCartRemove 30 1),
            (12 * day_ms, CartCleanup)])
   \<and> map (map status \<circ> items)
        (carts (run (cart_cleanupExpiredItems reserved_db (8 * day_ms))
           [(9 * day_ms, RouteCartAdd 30 1),
            (10 * day_ms, BrokerConfirmVisit 20 1 30 (Some ''manual'')),
            (11 * day_ms, RouteCartRemove 30 1),
            (12 * day_ms, CartCleanup)]))
       = [[Expired, Removed]]
   \<and> 0 < length (items (hd (carts reserved_db)))
   \<and> status (items (hd (carts reserved_db)) ! 0) = Active
   \<and> visit_status (items (hd (carts reserved_db)) ! 0) = Pending
   \<and> 8 * day_ms - added_at (items (hd (carts reserved_db)) ! 0)
        > visit_window_days (settings (hd (carts reserved_db))) * day_ms
   \<and> status (items (snd (checkExpiredItems (hd (carts reserved_db)) (8 * day_ms))) ! 0) = Expired"
proof -
  let ?S = "cart_cleanupExpiredItems reserved_db (8 * day_ms)"
  let ?c = "hd (carts reserved_db)"
  have h1: "distinct (map buyer (carts ?S))" by code_simp
  have h2: "map (map status \<circ> items) (carts ?S) = [[Expired]]" by code_simp
  have h3: "map (map status \<circ> items)
        (carts (run ?S
           [(9 * day_ms, RouteCartAdd 30 1),
            (10 * day_ms, BrokerConfirmVisit 20 1 30 (Some ''manual'')),
            (11 * day_ms, RouteCartRemove 30 1),
            (12 * day_ms, CartCleanup)]))
       = [[Expired, Removed]]" by code_simp
  have h4: "0 < length (items ?c)" "status (items ?c ! 0) = Active"
    "visit_status (items ?c ! 0) = Pending"
    "8 * day_ms - added_at (items ?c ! 0) > visit_window_days (settings ?c) * day_ms"
    by code_simp+
  from terminal_statuses_stay[OF h1, where c = ?c and now = "8 * day_ms"] h4
  have "terminal_kept ?S (run ?S
           [(9 * day_ms, RouteCartAdd 30 1),
            (10 * day_ms, BrokerConfirmVisit 20 1 30 (Some ''manual'')),
            (11 * day_ms, RouteCartRemove 30 1),
            (12 * day_ms, CartCleanup)])"
    and "status (items (snd (checkExpiredItems ?c (8 * day_ms))) ! 0) = Expired"
    by blast+
  with h1 h2 h3 h4 show ?thesis by blast
qed

end
